theory Spec2Isabelle
  imports Main "HOL-Library.Char_ord" "HOL-Library.List_Lexorder" "HOL-Library.Sublist"
    "HOL-Library.Multiset" "HOL-Library.Product_Lexorder"
begin

section \<open>Strings of the JavaScript runtime\<close>

text \<open>
  A JavaScript string is a sequence of UTF-16 code units; \<open>length\<close> counts code units and
  \<open><\<close> compares code unit by code unit, a proper prefix being smaller. The model takes a
  string to be a \<^typ>\<open>string\<close>, a list of \<^typ>\<open>char\<close>, each \<^typ>\<open>char\<close> standing for the
  code unit of the same number (0 to 255). On the strings whose code units are all below 256
  (ASCII and Latin-1) the functions below are the runtime's: this range is closed under
  \<open>trim\<close> and \<open>toLowerCase\<close>. Strings with other code units are outside the model.
\<close>

definition isWhiteSpace :: "char \<Rightarrow> bool" where
  \<comment> \<open>WhiteSpace and LineTerminator of ECMAScript below 256: TAB, LF, VT, FF, CR, SP, NBSP.\<close>
  "isWhiteSpace c = (c \<in> set [CHR 0x09, CHR 0x0A, CHR 0x0B, CHR 0x0C, CHR 0x0D, CHR 0x20, CHR 0xA0])"

definition trim :: "string \<Rightarrow> string" where
  \<comment> \<open>\<open>String.prototype.trim\<close>\<close>
  "trim s = rev (dropWhile isWhiteSpace (rev (dropWhile isWhiteSpace s)))"

definition lowerChar :: "char \<Rightarrow> char" where
  \<comment> \<open>The Unicode lower-case mapping below 256: A-Z, and U+00C0 to U+00DE except U+00D7.\<close>
  "lowerChar c =
     (let n = (of_char c :: nat)
      in if (65 \<le> n \<and> n \<le> 90) \<or> (192 \<le> n \<and> n \<le> 222 \<and> n \<noteq> 215)
         then char_of (n + 32) else c)"

definition toLowerCase :: "string \<Rightarrow> string" where
  \<comment> \<open>\<open>String.prototype.toLowerCase\<close>\<close>
  "toLowerCase s = map lowerChar s"

definition includes_str :: "string \<Rightarrow> string \<Rightarrow> bool" where
  \<comment> \<open>\<open>h.includes(n)\<close>: \<open>n\<close> occurs in \<open>h\<close> as a contiguous run.\<close>
  "includes_str h n = sublist n h"

fun join :: "string \<Rightarrow> string list \<Rightarrow> string" where
  \<comment> \<open>\<open>Array.prototype.join\<close> on an array of strings\<close>
  "join sep [] = []"
| "join sep [x] = x"
| "join sep (x # y # ys) = x @ sep @ join sep (y # ys)"

section \<open>Date Normalizer\<close>

text \<open>
  \<^verbatim>\<open>
  function normalizePartialDate(date: string): string {
    if (date.length === 4) return `${date}-00-00`;
    if (date.length === 7) return `${date}-00`;
    return date;
  }
  \<close>
  The search page and the recording page each carry this function, with the same text.
\<close>

definition normalizePartialDate :: "string \<Rightarrow> string" where
  "normalizePartialDate date =
     (if length date = 4 then date @ ''-00-00''
      else if length date = 7 then date @ ''-00''
      else date)"


section \<open>Data model\<close>

text \<open>
  The types of the search page. Every optional field of the TypeScript types is an
  \<open>option\<close>: \<open>None\<close> is the absent field (\<open>undefined\<close>), \<open>Some s\<close> the present one, so that an
  absent and an empty string stay apart. The duration of a recording is read by none of the
  functions below and is left out.
\<close>

record Artist =
  artist_id :: "string option"
  artist_name :: "string option"

record ArtistCredit =
  credit_name :: "string option"
  credit_artist :: "Artist option"

record ReleaseGroup =
  group_id :: "string option"
  group_title :: "string option"
  primary_type :: "string option"
  secondary_types :: "string list option"
  group_disambiguation :: "string option"

record Release =
  release_id :: "string option"
  title :: "string option"
  date :: "string option"
  status :: "string option"
  release_group :: "ReleaseGroup option"
  disambiguation :: "string option"

record Recording =
  recording_id :: string
  recording_title :: string
  artist_credit :: "ArtistCredit list option"
  releases :: "Release list option"

record CanonicalReleaseGroup =
  crg_id :: "string option"
  crg_title :: "string option"
  primaryType :: "string option"
  secondaryTypes :: "string list option"

record CanonicalMatch =
  recordingMbid :: string
  cm_title :: string
  cm_artist :: string
  releaseGroup :: "CanonicalReleaseGroup option"

section \<open>Text helpers of the scorers\<close>

definition normalizeForCompare :: "string \<Rightarrow> string" where
  "normalizeForCompare v = toLowerCase (trim v)"

definition includesAny :: "string \<Rightarrow> string list \<Rightarrow> bool" where
  "includesAny haystack needles =
     (let h = normalizeForCompare haystack in \<exists>n \<in> set needles. includes_str h n)"

fun nonBlankStrings :: "string option list \<Rightarrow> string list" where
  \<comment> \<open>\<open>.filter((v) => typeof v === "string" && v.trim().length > 0)\<close>\<close>
  "nonBlankStrings [] = []"
| "nonBlankStrings (None # vs) = nonBlankStrings vs"
| "nonBlankStrings (Some v # vs) =
     (if length (trim v) > 0 then v # nonBlankStrings vs else nonBlankStrings vs)"

section \<open>Release Quality Scorer\<close>

definition reissueTerms :: "string list" where
  "reissueTerms = [''remaster'', ''remastered'', ''deluxe'', ''expanded'', ''anniversary'',
     ''edition'', ''reissue'', ''bonus'']"

definition qualityCombinedText :: "Release \<Rightarrow> string" where
  \<comment> \<open>\<open>[r.title, r.disambiguation, group?.title, group?.disambiguation].filter(...).join(" ")\<close>\<close>
  "qualityCombinedText r =
     join '' '' (nonBlankStrings [title r, disambiguation r,
        Option.bind (release_group r) group_title,
        Option.bind (release_group r) group_disambiguation])"

definition getReleaseQualityPenalty :: "Release \<Rightarrow> int" where
  "getReleaseQualityPenalty r =
     (let st = (case status r of Some s \<Rightarrow> normalizeForCompare s | None \<Rightarrow> []);
          group = release_group r;
          primaryType' = (case Option.bind group primary_type of
                            Some p \<Rightarrow> normalizeForCompare p | None \<Rightarrow> []);
          secondaryTypes' = (case Option.bind group secondary_types of
                               Some ts \<Rightarrow> map normalizeForCompare ts | None \<Rightarrow> []);
          combinedText = qualityCombinedText r
      in (if st = ''bootleg'' then 100
          else if length st > 0 \<and> st \<noteq> ''official'' then 15 else 0)
         + (if ''compilation'' \<in> set secondaryTypes' then 25 else 0)
         + (if ''live'' \<in> set secondaryTypes' then 25 else 0)
         + (if ''remix'' \<in> set secondaryTypes' then 20 else 0)
         + (if ''soundtrack'' \<in> set secondaryTypes' then 20 else 0)
         + (if includesAny combinedText reissueTerms then 10 else 0)
         + (if length primaryType' > 0 \<and> primaryType' \<notin> set [''album'', ''single'', ''ep'']
            then 8 else 0))"

section \<open>Release-Group Primacy Scorer\<close>

definition secondaryTerms :: "string list" where
  "secondaryTerms = [''remaster'', ''remastered'', ''deluxe'', ''expanded'', ''anniversary'',
     ''edition'', ''reissue'']"

definition primacyCombinedText :: "Release \<Rightarrow> string" where
  \<comment> \<open>\<open>[r.title, r.disambiguation, group?.disambiguation].filter(...).join(" ")\<close>\<close>
  "primacyCombinedText r =
     join '' '' (nonBlankStrings [title r, disambiguation r,
        Option.bind (release_group r) group_disambiguation])"

definition getPrimaryReleaseGroupPenalty :: "Release \<Rightarrow> int" where
  \<comment> \<open>\<open>!group?.id\<close> holds for an absent group, an absent id and the empty id.\<close>
  "getPrimaryReleaseGroupPenalty r =
     (let group = release_group r;
          secondaryTypes' = (case Option.bind group secondary_types of
                               Some ts \<Rightarrow> ts | None \<Rightarrow> [])
      in (if (case Option.bind group group_id of None \<Rightarrow> True | Some i \<Rightarrow> i = [])
          then 5 else 0)
         + (if length secondaryTypes' > 0 then 5 else 0)
         + (if includesAny (primacyCombinedText r) secondaryTerms then 5 else 0))"

section \<open>Canonical Release Selector\<close>

definition releaseDateKey :: "Release \<Rightarrow> string" where
  \<comment> \<open>\<open>rawDate\<close> and \<open>dateKey\<close> of the loop body of \<open>pickCanonicalRelease\<close>\<close>
  "releaseDateKey r =
     (let rawDate = (case date r of Some d \<Rightarrow> trim d | None \<Rightarrow> [])
      in if length rawDate > 0 then normalizePartialDate rawDate else ''9999-99-99'')"

type_synonym pick_state = "Release option \<times> string \<times> int \<times> int"

definition pickStep :: "Release \<Rightarrow> pick_state \<Rightarrow> pick_state" where
  \<comment> \<open>One iteration of the loop over \<open>(best, bestDate, bestQuality, bestPrimary)\<close>.\<close>
  "pickStep r s =
     (case s of (best, bestDate, bestQuality, bestPrimary) \<Rightarrow>
        let dateKey = releaseDateKey r;
            quality = getReleaseQualityPenalty r;
            primary = getPrimaryReleaseGroupPenalty r
        in if best = None then (Some r, dateKey, quality, primary)
           else if dateKey \<noteq> bestDate then
             (if dateKey < bestDate then (Some r, dateKey, quality, primary) else s)
           else if quality \<noteq> bestQuality then
             (if quality < bestQuality then (Some r, bestDate, quality, primary) else s)
           else if primary \<noteq> bestPrimary then
             (if primary < bestPrimary then (Some r, bestDate, bestQuality, primary) else s)
           else s)"

definition pickCanonicalRelease :: "Release list option \<Rightarrow> Release option" where
  "pickCanonicalRelease rels =
     (case rels of
        None \<Rightarrow> None
      | Some rs \<Rightarrow>
          if length rs = 0 then None
          else fst (fold pickStep rs (None, ''9999-99-99'', 9999, 9999)))"

text \<open>
  The specification describes the selector by the three keys of a release, compared key by
  key: the earlier date key wins outright, the quality penalty decides on a date tie only and
  the primacy penalty on a date and quality tie only. \<open>keyBefore\<close> is that comparison, written
  from the specification's words; the loop above is compared with it below.
\<close>

definition releaseKey :: "Release \<Rightarrow> string \<times> int \<times> int" where
  "releaseKey r = (releaseDateKey r, getReleaseQualityPenalty r, getPrimaryReleaseGroupPenalty r)"

definition keyBefore :: "string \<times> int \<times> int \<Rightarrow> string \<times> int \<times> int \<Rightarrow> bool" where
  "keyBefore a b =
     (case a of (d1, q1, p1) \<Rightarrow> case b of (d2, q2, p2) \<Rightarrow>
        d1 < d2 \<or> (d1 = d2 \<and> (q1 < q2 \<or> (q1 = q2 \<and> p1 < p2))))"

section \<open>Recording Ranker\<close>

definition creditDisplayName :: "ArtistCredit \<Rightarrow> string option" where
  \<comment> \<open>\<open>c?.name ?? c?.artist?.name\<close>\<close>
  "creditDisplayName c =
     (case credit_name c of Some n \<Rightarrow> Some n | None \<Rightarrow> Option.bind (credit_artist c) artist_name)"

definition isExactArtistMatch :: "Recording \<Rightarrow> string \<Rightarrow> bool" where
  "isExactArtistMatch recording artist =
     (let target = normalizeForCompare artist
      in if length target = 0 then False
         else case artist_credit recording of
                None \<Rightarrow> False
              | Some credits \<Rightarrow>
                  if length credits = 0 then False
                  else \<exists>c \<in> set credits.
                         (case creditDisplayName c of
                            None \<Rightarrow> False
                          | Some name \<Rightarrow>
                              if name = [] then False
                              else normalizeForCompare name = target))"

definition earliestStep :: "Release \<Rightarrow> string \<Rightarrow> string" where
  \<comment> \<open>One iteration of the loop of \<open>getEarliestReleaseDate\<close> over \<open>best\<close>.\<close>
  "earliestStep r best =
     (let raw = (case date r of Some d \<Rightarrow> trim d | None \<Rightarrow> [])
      in if length raw = 0 then best
         else let norm = normalizePartialDate raw
              in if norm < best then norm else best)"

definition getEarliestReleaseDate :: "Release list option \<Rightarrow> string" where
  "getEarliestReleaseDate rels =
     (case rels of
        None \<Rightarrow> ''9999-99-99''
      | Some rs \<Rightarrow>
          if length rs = 0 then ''9999-99-99''
          else fold earliestStep rs ''9999-99-99'')"

record Scored =
  rec :: Recording
  artistMatch :: bool
  earliestDate :: string
  bestQuality :: int
  bestPrimaryPenalty :: int

definition scoreStep :: "Release \<Rightarrow> int \<times> int \<Rightarrow> int \<times> int" where
  \<comment> \<open>One iteration of the loop of the ranker over \<open>(bestQuality, bestPrimaryPenalty)\<close>.\<close>
  "scoreStep r s =
     (case s of (bq, bp) \<Rightarrow>
        let q = getReleaseQualityPenalty r;
            bq' = (if q < bq then q else bq);
            p = getPrimaryReleaseGroupPenalty r;
            bp' = (if p < bp then p else bp)
        in (bq', bp'))"

definition scoreRecording :: "string \<Rightarrow> Recording \<Rightarrow> Scored" where
  \<comment> \<open>The callback of \<open>args.recordings.map\<close>; \<open>artist\<close> is the trimmed query.\<close>
  "scoreRecording artist r =
     (let am = isExactArtistMatch r artist;
          ed = getEarliestReleaseDate (releases r);
          rs = (case releases r of Some rs \<Rightarrow> rs | None \<Rightarrow> []);
          (bq, bp) = fold scoreStep rs (9999, 9999);
          bq' = (if bq = 9999 then 999 else bq);
          bp' = (if bp = 9999 then 99 else bp)
      in \<lparr>rec = r, artistMatch = am, earliestDate = ed, bestQuality = bq',
          bestPrimaryPenalty = bp'\<rparr>)"

definition compareScored :: "(string \<Rightarrow> string \<Rightarrow> int) \<Rightarrow> Scored \<Rightarrow> Scored \<Rightarrow> int" where
  \<comment> \<open>The comparator of \<open>scored.sort\<close>. \<open>localeCompare\<close> is the runtime's collation of two
      strings, a parameter of the model.\<close>
  "compareScored localeCompare a b =
     (if artistMatch a \<noteq> artistMatch b then (if artistMatch a then -1 else 1)
      else if earliestDate a \<noteq> earliestDate b then
        (if earliestDate a < earliestDate b then -1 else 1)
      else if bestQuality a \<noteq> bestQuality b then bestQuality a - bestQuality b
      else if bestPrimaryPenalty a \<noteq> bestPrimaryPenalty b then
        bestPrimaryPenalty a - bestPrimaryPenalty b
      else localeCompare (recording_id (rec a)) (recording_id (rec b)))"

fun insertBy :: "('a \<Rightarrow> 'a \<Rightarrow> int) \<Rightarrow> 'a \<Rightarrow> 'a list \<Rightarrow> 'a list" where
  "insertBy cmp x [] = [x]"
| "insertBy cmp x (y # ys) = (if cmp x y \<le> 0 then x # y # ys else y # insertBy cmp x ys)"

definition sortBy :: "('a \<Rightarrow> 'a \<Rightarrow> int) \<Rightarrow> 'a list \<Rightarrow> 'a list" where
  \<comment> \<open>\<open>Array.prototype.sort\<close> with a comparator is a stable sort: an element goes before
      the elements it does not compare above, and after those before it in the input that it
      compares equal to. Insertion from the right end of the input is such a sort.\<close>
  "sortBy cmp xs = foldr (insertBy cmp) xs []"

definition rankRecordings ::
  "(string \<Rightarrow> string \<Rightarrow> int) \<Rightarrow> Recording list \<Rightarrow> string \<Rightarrow> Recording list" where
  "rankRecordings localeCompare recordings artistQuery =
     (let artist = trim artistQuery;
          scored = map (scoreRecording artist) recordings
      in map rec (sortBy (compareScored localeCompare) scored))"

section \<open>Query Builder\<close>

definition escapeQueryValue :: "string \<Rightarrow> string" where
  \<comment> \<open>\<open>value.replaceAll('"', "\\\"")\<close>: the pattern is the one character U+0022, the
      replacement the two characters U+005C U+0022.\<close>
  "escapeQueryValue v = concat (map (\<lambda>c. if c = CHR 0x22 then [CHR 0x5C, CHR 0x22] else [c]) v)"

definition buildRecordingSearchQuery :: "string \<Rightarrow> string \<Rightarrow> string" where
  "buildRecordingSearchQuery title_arg artist_arg =
     (let parts0 = [];
          t = trim title_arg;
          a = trim artist_arg;
          parts1 = (if length t > 0
                    then parts0 @ [''recording:'' @ [CHR 0x22] @ escapeQueryValue t @ [CHR 0x22]]
                    else parts0);
          parts2 = (if length a > 0
                    then parts1 @ [''artist:'' @ [CHR 0x22] @ escapeQueryValue a @ [CHR 0x22]]
                    else parts1)
      in join '' AND '' parts2)"

section \<open>Canonical Match Projector\<close>

definition getArtistName :: "Recording \<Rightarrow> string" where
  "getArtistName r =
     (case artist_credit r of
        None \<Rightarrow> ''Unknown artist''
      | Some credits \<Rightarrow>
          if length credits = 0 then ''Unknown artist''
          else let names = nonBlankStrings (map creditDisplayName credits)
               in if length names = 0 then ''Unknown artist'' else join '', '' names)"

definition toCanonicalMatch :: "Recording \<Rightarrow> CanonicalMatch" where
  "toCanonicalMatch recording =
     (let canonicalRelease = pickCanonicalRelease (releases recording);
          rg = (case Option.bind canonicalRelease release_group of
                  Some g \<Rightarrow> Some \<lparr>crg_id = group_id g, crg_title = group_title g,
                                   primaryType = primary_type g,
                                   secondaryTypes = secondary_types g\<rparr>
                | None \<Rightarrow> None)
      in \<lparr>recordingMbid = recording_id recording, cm_title = recording_title recording,
          cm_artist = getArtistName recording, releaseGroup = rg\<rparr>)"

section \<open>Requests and their failures\<close>

text \<open>
  The network is outside the model: a request is modelled from the moment \<open>fetch\<close> has
  resolved to a response, which is an input. A response carries its numeric status and its
  parsed JSON body; \<open>res.ok\<close> is, by the Fetch standard, the status lying in 200 to 299. The
  error a function throws is the \<open>Inl\<close> of its result, carrying the message.
\<close>

datatype 'a Response = Response (resp_status: nat) (resp_json: 'a)

definition resp_ok :: "'a Response \<Rightarrow> bool" where
  "resp_ok res = (200 \<le> resp_status res \<and> resp_status res \<le> 299)"

fun numberToString :: "nat \<Rightarrow> string" where
  \<comment> \<open>The decimal digits of a status, as the template literal \<open>${res.status}\<close> writes them.\<close>
  "numberToString n =
     (if n < 10 then [''0123456789'' ! n]
      else numberToString (n div 10) @ [''0123456789'' ! (n mod 10)])"

declare numberToString.simps [simp del]

definition fetchRecording :: "'a Response \<Rightarrow> string + 'a" where
  \<comment> \<open>The recording page, from the check of \<open>res.ok\<close> on.\<close>
  "fetchRecording res =
     (if \<not> resp_ok res then
        (if resp_status res = 403 then
           Inl ''Request failed (403). MusicBrainz requires a valid User-Agent. Set MUSICBRAINZ_USER_AGENT to something like: MyApp/1.0.0 (you@example.com)''
         else Inl (''Request failed ('' @ numberToString (resp_status res) @ '')''))
      else Inr (resp_json res))"

record RecordingResponse =
  recordings :: "Recording list option"

definition runSearchTry ::
  "(string \<Rightarrow> string \<Rightarrow> int) \<Rightarrow> string \<Rightarrow> RecordingResponse Response \<Rightarrow> string + CanonicalMatch" where
  \<comment> \<open>The \<open>try\<close> block of \<open>runSearch\<close>, from the check of \<open>res.ok\<close> on; \<open>artist_arg\<close> is
      \<open>args.artist\<close>.\<close>
  "runSearchTry localeCompare artist_arg res =
     (if \<not> resp_ok res then
        Inl (''Request failed ('' @ numberToString (resp_status res) @ '')'')
      else
        let data = resp_json res;
            recs = (case recordings data of Some rs \<Rightarrow> rs | None \<Rightarrow> []);
            ranked = rankRecordings localeCompare recs artist_arg
        in case ranked of
             [] \<Rightarrow> Inl ''No canonical match found.''
           | best # _ \<Rightarrow> Inr (toCanonicalMatch best))"

record SearchState =
  isLoading :: bool
  error :: "string option"
  canonical :: "CanonicalMatch option"
  stored :: "CanonicalMatch option"

definition runSearch ::
  "(string \<Rightarrow> string \<Rightarrow> int) \<Rightarrow> string \<Rightarrow> string \<Rightarrow> RecordingResponse Response
     \<Rightarrow> SearchState \<Rightarrow> SearchState" where
  \<comment> \<open>The state \<open>runSearch\<close> leaves: the error message, the canonical match and the item of
      the session storage (the match itself, not its JSON text). The heading text
      (\<open>submittedQuery\<close>) is left out.\<close>
  "runSearch localeCompare title_arg artist_arg res st =
     (let queryString = buildRecordingSearchQuery title_arg artist_arg;
          trimmed = trim queryString
      in if length trimmed = 0 then st\<lparr>error := None, canonical := None, stored := None\<rparr>
         else case runSearchTry localeCompare artist_arg res of
                Inr nextCanonical \<Rightarrow>
                  st\<lparr>isLoading := False, error := None, canonical := Some nextCanonical,
                     stored := Some nextCanonical\<rparr>
              | Inl message \<Rightarrow>
                  st\<lparr>isLoading := False, error := Some message, canonical := None,
                     stored := None\<rparr>)"

section \<open>First release of the recording page\<close>

record ReleaseDetails =
  details_id :: "string option"
  details_title :: "string option"
  details_date :: "string option"

definition firstReleaseKey :: "ReleaseDetails \<Rightarrow> string" where
  \<comment> \<open>\<open>typeof r.date === "string" ? normalizePartialDate(r.date) : "9999-99-99"\<close>\<close>
  "firstReleaseKey r =
     (case details_date r of Some d \<Rightarrow> normalizePartialDate d | None \<Rightarrow> ''9999-99-99'')"

definition firstReleaseStep :: "ReleaseDetails \<Rightarrow> ReleaseDetails option \<Rightarrow> ReleaseDetails option" where
  "firstReleaseStep r best =
     (case best of
        None \<Rightarrow> Some r
      | Some b \<Rightarrow>
          let a = firstReleaseKey b;
              b' = firstReleaseKey r
          in if b' < a then Some r else best)"

definition hasDate :: "ReleaseDetails \<Rightarrow> bool" where
  \<comment> \<open>\<open>typeof r.date === "string" && r.date.trim().length > 0\<close>\<close>
  "hasDate r = (case details_date r of Some d \<Rightarrow> length (trim d) > 0 | None \<Rightarrow> False)"

definition getFirstRelease :: "ReleaseDetails list option \<Rightarrow> ReleaseDetails option" where
  "getFirstRelease rels =
     (case rels of
        None \<Rightarrow> None
      | Some rs \<Rightarrow>
          if length rs = 0 then None
          else let withDates = filter hasDate rs;
                   lst = (if length withDates > 0 then withDates else rs);
                   best = (case lst of [] \<Rightarrow> None | x # _ \<Rightarrow> Some x)
               in fold firstReleaseStep lst best)"

section \<open>Notions of the specification used in the statements\<close>

text \<open>
  The definitions of this section are not translations of code: they name what the
  specification speaks of, so that the statements below can say it.
\<close>

fun firstLeast :: "('a \<Rightarrow> 'k::linorder) \<Rightarrow> 'a \<Rightarrow> 'a list \<Rightarrow> 'a" where
  \<comment> \<open>The element with the least key of \<open>b\<close> and the list, the earliest such element on a
      tie: \<open>b\<close> is the candidate so far, replaced only by an element strictly before it.\<close>
  "firstLeast k b [] = b"
| "firstLeast k b (r # rs) = firstLeast k (if k r < k b then r else b) rs"

definition blankDate :: "Release \<Rightarrow> bool" where
  \<comment> \<open>The date is present and blank: empty, or white space only.\<close>
  "blankDate r = (case date r of Some d \<Rightarrow> trim d = [] | None \<Rightarrow> False)"

definition blankToAbsent :: "Release \<Rightarrow> Release" where
  \<comment> \<open>The same release with a blank date taken away.\<close>
  "blankToAbsent r = (if blankDate r then r\<lparr>date := None\<rparr> else r)"

definition isDigit :: "char \<Rightarrow> bool" where
  "isDigit c = (CHR ''0'' \<le> c \<and> c \<le> CHR ''9'')"

definition isYear :: "string \<Rightarrow> bool" where
  "isYear y = (length y = 4 \<and> list_all isDigit y)"

definition isMonth :: "string \<Rightarrow> bool" where
  "isMonth m = (m \<in> set [''01'', ''02'', ''03'', ''04'', ''05'', ''06'', ''07'', ''08'', ''09'',
     ''10'', ''11'', ''12''])"

definition isDay :: "string \<Rightarrow> bool" where
  "isDay d = (length d = 2 \<and> list_all isDigit d \<and> ''01'' \<le> d \<and> d \<le> ''31'')"

definition isCalendarDate :: "string \<Rightarrow> bool" where
  \<comment> \<open>A real date as the service writes it: \<open>YYYY\<close>, \<open>YYYY-MM\<close> or \<open>YYYY-MM-DD\<close>.\<close>
  "isCalendarDate s =
     (isYear s
      \<or> (length s = 7 \<and> isYear (take 4 s) \<and> s ! 4 = CHR ''-'' \<and> isMonth (drop 5 s))
      \<or> (length s = 10 \<and> isYear (take 4 s) \<and> s ! 4 = CHR ''-'' \<and> isMonth (take 2 (drop 5 s))
          \<and> s ! 7 = CHR ''-'' \<and> isDay (drop 8 s)))"

definition hasRealDate :: "Recording \<Rightarrow> bool" where
  \<comment> \<open>At least one release of the recording carries a real date, white space around it
      aside.\<close>
  "hasRealDate r =
     (case releases r of
        None \<Rightarrow> False
      | Some rs \<Rightarrow>
          (\<exists>x \<in> set rs. (case date x of Some d \<Rightarrow> isCalendarDate (trim d) | None \<Rightarrow> False)))"

definition noReleases :: "Recording \<Rightarrow> bool" where
  "noReleases r = (case releases r of None \<Rightarrow> True | Some rs \<Rightarrow> rs = [])"

definition scoredRankKey :: "Scored \<Rightarrow> bool \<times> string" where
  \<comment> \<open>The first two keys of the ranking; \<open>False\<close> sorts before \<open>True\<close>, so a match comes
      first.\<close>
  "scoredRankKey s = (\<not> artistMatch s, earliestDate s)"

definition recordingRankKey :: "string \<Rightarrow> Recording \<Rightarrow> bool \<times> string" where
  "recordingRankKey artist r =
     (\<not> isExactArtistMatch r artist, getEarliestReleaseDate (releases r))"

section \<open>Date Normalizer: properties\<close>

text \<open>
  C6. \<open>normalizePartialDate\<close> is idempotent on every input of length 10; a length-4 input
  \<open>s\<close> becomes \<open>s\<close> followed by \<open>-00-00\<close> and a length-7 input \<open>s\<close> becomes \<open>s\<close> followed by
  \<open>-00\<close>, so that every input of length 4, 7 or 10 gives an output of length 10; an input of
  any other length is returned unchanged.
\<close>

theorem normalizePartialDate_lengths:
  "(length s = 10 \<longrightarrow> normalizePartialDate (normalizePartialDate s) = normalizePartialDate s)
   \<and> (length s = 4 \<longrightarrow> normalizePartialDate s = s @ ''-00-00'')
   \<and> (length s = 7 \<longrightarrow> normalizePartialDate s = s @ ''-00'')
   \<and> (length s = 4 \<or> length s = 7 \<or> length s = 10 \<longrightarrow> length (normalizePartialDate s) = 10)
   \<and> (length s \<noteq> 4 \<and> length s \<noteq> 7 \<longrightarrow> normalizePartialDate s = s)"
  by (auto simp: normalizePartialDate_def)

theorem normalizePartialDate_lengths_witness:
  "normalizePartialDate (normalizePartialDate ''1965-12-03'') = normalizePartialDate ''1965-12-03''
   \<and> normalizePartialDate ''1965'' = ''1965-00-00''
   \<and> normalizePartialDate ''1965-12'' = ''1965-12-00''
   \<and> length (normalizePartialDate ''1965'') = 10
   \<and> length (normalizePartialDate ''1965-12'') = 10
   \<and> length (normalizePartialDate ''1965-12-03'') = 10
   \<and> normalizePartialDate ''19'' = ''19''"
  using normalizePartialDate_lengths [of "''1965-12-03''"]
    normalizePartialDate_lengths [of "''1965''"]
    normalizePartialDate_lengths [of "''1965-12''"]
    normalizePartialDate_lengths [of "''19''"]
  by simp

section \<open>Scorers: properties\<close>

lemma qualityCombinedText_status [simp]:
  "qualityCombinedText (r\<lparr>status := v\<rparr>) = qualityCombinedText r"
  by (simp add: qualityCombinedText_def)

lemma combinedText_no_group:
  "release_group r = None \<Longrightarrow> primacyCombinedText r = qualityCombinedText r"
  by (cases "title r"; cases "disambiguation r";
      simp add: primacyCombinedText_def qualityCombinedText_def)

lemma includesAny_mono: "set ns \<subseteq> set ms \<Longrightarrow> includesAny t ns \<Longrightarrow> includesAny t ms"
  by (auto simp: includesAny_def Let_def)

lemma secondaryTerms_subset: "set secondaryTerms \<subseteq> set reissueTerms"
  by (simp add: secondaryTerms_def reissueTerms_def)

lemma penalties_nonneg:
  "0 \<le> getReleaseQualityPenalty r" "0 \<le> getPrimaryReleaseGroupPenalty r"
  unfolding getReleaseQualityPenalty_def getPrimaryReleaseGroupPenalty_def Let_def
  by (intro add_nonneg_nonneg; simp)+

lemma if_le: "a \<le> k \<Longrightarrow> b \<le> k \<Longrightarrow> (if c then a else b) \<le> (k::int)"
  by simp

lemma penalties_bounded:
  "getReleaseQualityPenalty r \<le> 208" "getPrimaryReleaseGroupPenalty r \<le> 15"
proof -
  have "getReleaseQualityPenalty r \<le> 100 + 25 + 25 + 20 + 20 + 10 + 8"
    unfolding getReleaseQualityPenalty_def Let_def
    by (intro add_mono if_le; simp)
  then show "getReleaseQualityPenalty r \<le> 208" by simp
  have "getPrimaryReleaseGroupPenalty r \<le> 5 + 5 + 5"
    unfolding getPrimaryReleaseGroupPenalty_def Let_def
    by (intro add_mono if_le; simp)
  then show "getPrimaryReleaseGroupPenalty r \<le> 15" by simp
qed




text \<open>
  C2, as the specification states it, fails on the primacy penalty: a release without a
  release-group has no release-group id, which costs 5.
\<close>

theorem official_no_group_counterexample:
  "normalizeForCompare ''official'' = ''official''
   \<and> \<not> includesAny (qualityCombinedText \<lparr>release_id = None, title = Some ''Yesterday'',
          date = None, status = Some ''official'', release_group = None,
          disambiguation = None\<rparr>) reissueTerms
   \<and> \<not> includesAny (primacyCombinedText \<lparr>release_id = None, title = Some ''Yesterday'',
          date = None, status = Some ''official'', release_group = None,
          disambiguation = None\<rparr>) secondaryTerms
   \<and> getPrimaryReleaseGroupPenalty \<lparr>release_id = None, title = Some ''Yesterday'',
          date = None, status = Some ''official'', release_group = None,
          disambiguation = None\<rparr> \<noteq> 0"
  by code_simp

text \<open>
  C2, amended. For every release both penalties are non-negative integers. A release with
  status \<open>official\<close>, no release-group and no reissue wording in its free text scores 0 on the
  quality penalty and 5 on the primacy penalty. A release with status \<open>official\<close>, no reissue
  wording, and a release-group that has a non-empty id, no secondary type and a primary type
  that is absent or one of \<open>album\<close>, \<open>single\<close>, \<open>ep\<close> scores 0 on both.
\<close>

theorem penalties_nonneg_official:
  "0 \<le> getReleaseQualityPenalty r \<and> 0 \<le> getPrimaryReleaseGroupPenalty r
   \<and> (status r = Some s \<and> normalizeForCompare s = ''official'' \<and> release_group r = None
       \<and> \<not> includesAny (qualityCombinedText r) reissueTerms \<longrightarrow>
         getReleaseQualityPenalty r = 0 \<and> getPrimaryReleaseGroupPenalty r = 5)
   \<and> (status r = Some s \<and> normalizeForCompare s = ''official'' \<and> release_group r = Some g
       \<and> group_id g = Some i \<and> i \<noteq> []
       \<and> (primary_type g = None
            \<or> (\<exists>p. primary_type g = Some p
                  \<and> normalizeForCompare p \<in> set [''album'', ''single'', ''ep'']))
       \<and> (secondary_types g = None \<or> secondary_types g = Some [])
       \<and> \<not> includesAny (qualityCombinedText r) reissueTerms
       \<and> \<not> includesAny (primacyCombinedText r) secondaryTerms \<longrightarrow>
         getReleaseQualityPenalty r = 0 \<and> getPrimaryReleaseGroupPenalty r = 0)"
proof -
  have a: "getReleaseQualityPenalty r = 0 \<and> getPrimaryReleaseGroupPenalty r = 5"
    if h: "status r = Some s" "normalizeForCompare s = ''official''" "release_group r = None"
       "\<not> includesAny (qualityCombinedText r) reissueTerms"
  proof -
    have "\<not> includesAny (primacyCombinedText r) secondaryTerms"
      using h(3,4) combinedText_no_group [of r] includesAny_mono [OF secondaryTerms_subset]
      by auto
    then show ?thesis using h
      by (simp add: getReleaseQualityPenalty_def getPrimaryReleaseGroupPenalty_def Let_def
          split del: if_split)
  qed
  have b: "getReleaseQualityPenalty r = 0 \<and> getPrimaryReleaseGroupPenalty r = 0"
    if h: "status r = Some s" "normalizeForCompare s = ''official''" "release_group r = Some g"
       "group_id g = Some i" "i \<noteq> []"
       "primary_type g = None
          \<or> (\<exists>p. primary_type g = Some p
                \<and> normalizeForCompare p \<in> set [''album'', ''single'', ''ep''])"
       "secondary_types g = None \<or> secondary_types g = Some []"
       "\<not> includesAny (qualityCombinedText r) reissueTerms"
       "\<not> includesAny (primacyCombinedText r) secondaryTerms"
    using h
    by (auto simp: getReleaseQualityPenalty_def getPrimaryReleaseGroupPenalty_def Let_def
        split del: if_split)
  show ?thesis using penalties_nonneg [of r] a b by blast
qed

theorem penalties_nonneg_official_witness:
  "getReleaseQualityPenalty \<lparr>release_id = None, title = Some ''Yesterday'',
      date = Some ''1965'', status = Some ''Official'', release_group = None,
      disambiguation = None\<rparr> = 0
   \<and> getPrimaryReleaseGroupPenalty \<lparr>release_id = None, title = Some ''Yesterday'',
      date = Some ''1965'', status = Some ''Official'', release_group = None,
      disambiguation = None\<rparr> = 5
   \<and> getReleaseQualityPenalty \<lparr>release_id = None, title = Some ''Help!'',
      date = Some ''1965'', status = Some ''Official'',
      release_group = Some \<lparr>group_id = Some ''g1'', group_title = Some ''Help!'',
        primary_type = Some ''Album'', secondary_types = Some [],
        group_disambiguation = None\<rparr>,
      disambiguation = None\<rparr> = 0
   \<and> getPrimaryReleaseGroupPenalty \<lparr>release_id = None, title = Some ''Help!'',
      date = Some ''1965'', status = Some ''Official'',
      release_group = Some \<lparr>group_id = Some ''g1'', group_title = Some ''Help!'',
        primary_type = Some ''Album'', secondary_types = Some [],
        group_disambiguation = None\<rparr>,
      disambiguation = None\<rparr> = 0"
proof -
  have e: "normalizeForCompare ''Official'' = ''official''"
    "normalizeForCompare ''Album'' = ''album''"
    "\<not> includesAny (qualityCombinedText \<lparr>release_id = None, title = Some ''Yesterday'',
        date = Some ''1965'', status = Some ''Official'', release_group = None,
        disambiguation = None\<rparr>) reissueTerms"
    "\<not> includesAny (qualityCombinedText \<lparr>release_id = None, title = Some ''Help!'',
        date = Some ''1965'', status = Some ''Official'',
        release_group = Some \<lparr>group_id = Some ''g1'', group_title = Some ''Help!'',
          primary_type = Some ''Album'', secondary_types = Some [],
          group_disambiguation = None\<rparr>,
        disambiguation = None\<rparr>) reissueTerms"
    "\<not> includesAny (primacyCombinedText \<lparr>release_id = None, title = Some ''Help!'',
        date = Some ''1965'', status = Some ''Official'',
        release_group = Some \<lparr>group_id = Some ''g1'', group_title = Some ''Help!'',
          primary_type = Some ''Album'', secondary_types = Some [],
          group_disambiguation = None\<rparr>,
        disambiguation = None\<rparr>) secondaryTerms"
    by code_simp+
  show ?thesis
    using
      penalties_nonneg_official [of "\<lparr>release_id = None, title = Some ''Yesterday'',
        date = Some ''1965'', status = Some ''Official'', release_group = None,
        disambiguation = None\<rparr>" "''Official''"]
      penalties_nonneg_official [of "\<lparr>release_id = None, title = Some ''Help!'',
        date = Some ''1965'', status = Some ''Official'',
        release_group = Some \<lparr>group_id = Some ''g1'', group_title = Some ''Help!'',
          primary_type = Some ''Album'', secondary_types = Some [],
          group_disambiguation = None\<rparr>,
        disambiguation = None\<rparr>" "''Official''"
        "\<lparr>group_id = Some ''g1'', group_title = Some ''Help!'',
          primary_type = Some ''Album'', secondary_types = Some [],
          group_disambiguation = None\<rparr>" "''g1''"]
      e
    by simp
qed

section \<open>Query Builder: properties\<close>

text \<open>
  C7. \<open>buildRecordingSearchQuery\<close> returns the empty string when title and artist are both
  blank after trimming; with exactly one of them not blank it returns the one clause
  \<open>recording:"<escaped title>"\<close> or \<open>artist:"<escaped artist>"\<close> of the trimmed value; with both
  not blank it joins the two clauses with \<open> AND \<close>. Escaping goes through the value character
  by character, writes a backslash before each double quote and copies every other character.
  The three examples of the specification hold.
\<close>

theorem buildRecordingSearchQuery_cases:
  "(trim t = [] \<and> trim a = [] \<longrightarrow> buildRecordingSearchQuery t a = [])
   \<and> (trim t \<noteq> [] \<and> trim a = [] \<longrightarrow>
        buildRecordingSearchQuery t a
          = ''recording:'' @ [CHR 0x22] @ escapeQueryValue (trim t) @ [CHR 0x22])
   \<and> (trim t = [] \<and> trim a \<noteq> [] \<longrightarrow>
        buildRecordingSearchQuery t a
          = ''artist:'' @ [CHR 0x22] @ escapeQueryValue (trim a) @ [CHR 0x22])
   \<and> (trim t \<noteq> [] \<and> trim a \<noteq> [] \<longrightarrow>
        buildRecordingSearchQuery t a
          = ''recording:'' @ [CHR 0x22] @ escapeQueryValue (trim t) @ [CHR 0x22]
            @ '' AND '' @ ''artist:'' @ [CHR 0x22] @ escapeQueryValue (trim a) @ [CHR 0x22])
   \<and> escapeQueryValue [] = []
   \<and> escapeQueryValue (c # v)
        = (if c = CHR 0x22 then [CHR 0x5C, CHR 0x22] else [c]) @ escapeQueryValue v
   \<and> buildRecordingSearchQuery '''' '''' = ''''
   \<and> buildRecordingSearchQuery ''Yesterday'' ''''
        = ''recording:'' @ [CHR 0x22] @ ''Yesterday'' @ [CHR 0x22]
   \<and> buildRecordingSearchQuery (''A '' @ [CHR 0x22] @ ''B'' @ [CHR 0x22]) ''X''
        = ''recording:'' @ [CHR 0x22] @ ''A '' @ [CHR 0x5C, CHR 0x22] @ ''B''
          @ [CHR 0x5C, CHR 0x22] @ [CHR 0x22] @ '' AND '' @ ''artist:'' @ [CHR 0x22] @ ''X''
          @ [CHR 0x22]"
proof -
  have ex: "buildRecordingSearchQuery '''' '''' = ''''"
    "buildRecordingSearchQuery ''Yesterday'' ''''
        = ''recording:'' @ [CHR 0x22] @ ''Yesterday'' @ [CHR 0x22]"
    "buildRecordingSearchQuery (''A '' @ [CHR 0x22] @ ''B'' @ [CHR 0x22]) ''X''
        = ''recording:'' @ [CHR 0x22] @ ''A '' @ [CHR 0x5C, CHR 0x22] @ ''B''
          @ [CHR 0x5C, CHR 0x22] @ [CHR 0x22] @ '' AND '' @ ''artist:'' @ [CHR 0x22] @ ''X''
          @ [CHR 0x22]"
    by code_simp+
  have cases: "(trim t = [] \<and> trim a = [] \<longrightarrow> buildRecordingSearchQuery t a = [])
   \<and> (trim t \<noteq> [] \<and> trim a = [] \<longrightarrow>
        buildRecordingSearchQuery t a
          = ''recording:'' @ [CHR 0x22] @ escapeQueryValue (trim t) @ [CHR 0x22])
   \<and> (trim t = [] \<and> trim a \<noteq> [] \<longrightarrow>
        buildRecordingSearchQuery t a
          = ''artist:'' @ [CHR 0x22] @ escapeQueryValue (trim a) @ [CHR 0x22])
   \<and> (trim t \<noteq> [] \<and> trim a \<noteq> [] \<longrightarrow>
        buildRecordingSearchQuery t a
          = ''recording:'' @ [CHR 0x22] @ escapeQueryValue (trim t) @ [CHR 0x22]
            @ '' AND '' @ ''artist:'' @ [CHR 0x22] @ escapeQueryValue (trim a) @ [CHR 0x22])"
    by (simp add: buildRecordingSearchQuery_def Let_def)
  have esc: "escapeQueryValue [] = []"
    "escapeQueryValue (c # v)
        = (if c = CHR 0x22 then [CHR 0x5C, CHR 0x22] else [c]) @ escapeQueryValue v"
    by (simp_all add: escapeQueryValue_def)
  show ?thesis using ex cases esc by blast
qed

theorem buildRecordingSearchQuery_cases_witness:
  "buildRecordingSearchQuery ''  '' [CHR 0x09] = []
   \<and> buildRecordingSearchQuery '' Yesterday '' ''  ''
        = ''recording:'' @ [CHR 0x22] @ ''Yesterday'' @ [CHR 0x22]
   \<and> buildRecordingSearchQuery '''' ''The Beatles''
        = ''artist:'' @ [CHR 0x22] @ ''The Beatles'' @ [CHR 0x22]
   \<and> buildRecordingSearchQuery ''Help!'' ''The Beatles''
        = ''recording:'' @ [CHR 0x22] @ ''Help!'' @ [CHR 0x22] @ '' AND '' @ ''artist:''
          @ [CHR 0x22] @ ''The Beatles'' @ [CHR 0x22]"
proof -
  have e: "trim ''  '' = []" "trim [CHR 0x09] = []" "trim '''' = []"
    "trim '' Yesterday '' = ''Yesterday''" "trim ''The Beatles'' = ''The Beatles''"
    "trim ''Help!'' = ''Help!''"
    "escapeQueryValue ''Yesterday'' = ''Yesterday''"
    "escapeQueryValue ''The Beatles'' = ''The Beatles''"
    "escapeQueryValue ''Help!'' = ''Help!''"
    by code_simp+
  show ?thesis
    using buildRecordingSearchQuery_cases [of "''  ''" "[CHR 0x09]"]
      buildRecordingSearchQuery_cases [of "'' Yesterday ''" "''  ''"]
      buildRecordingSearchQuery_cases [of "''''" "''The Beatles''"]
      buildRecordingSearchQuery_cases [of "''Help!''" "''The Beatles''"]
      e
    by simp
qed

section \<open>Requests: properties\<close>

lemma numberToString_403: "numberToString 403 = ''403''"
  by code_simp

lemma includes_str_middle: "includes_str (p @ n @ s) n"
  by (simp add: includes_str_def sublist_def) blast

text \<open>
  C8. For every response whose status is not a success, \<open>fetchRecording\<close> throws an error whose
  message contains the decimal status. For status 403 the message is not the generic
  \<open>Request failed (<status>)\<close>: it says that a valid User-Agent is required and tells the
  caller to set \<open>MUSICBRAINZ_USER_AGENT\<close>. For every other failing status the message is the
  generic one. In \<open>runSearch\<close> the \<open>try\<close> block throws the generic message, which contains the
  status, on every response that is not a success, and the search then ends with that message
  as its error.
\<close>

theorem request_failure_messages:
  "(\<not> resp_ok res \<longrightarrow>
      (\<exists>msg. fetchRecording res = Inl msg \<and> includes_str msg (numberToString (resp_status res))))
   \<and> (\<not> resp_ok res \<and> resp_status res \<noteq> 403 \<longrightarrow>
      fetchRecording res = Inl (''Request failed ('' @ numberToString (resp_status res) @ '')''))
   \<and> (resp_status res = 403 \<longrightarrow>
      (\<exists>msg. fetchRecording res = Inl msg
         \<and> msg \<noteq> ''Request failed ('' @ numberToString (resp_status res) @ '')''
         \<and> includes_str msg ''Set MUSICBRAINZ_USER_AGENT''
         \<and> includes_str msg ''requires a valid User-Agent''))
   \<and> (\<not> resp_ok sres \<longrightarrow>
      runSearchTry lc a sres
        = Inl (''Request failed ('' @ numberToString (resp_status sres) @ '')'')
      \<and> includes_str (''Request failed ('' @ numberToString (resp_status sres) @ '')'')
            (numberToString (resp_status sres))
      \<and> (trim (buildRecordingSearchQuery t a) \<noteq> [] \<longrightarrow>
           error (runSearch lc t a sres st)
             = Some (''Request failed ('' @ numberToString (resp_status sres) @ '')'')))"
proof -
  let ?m403 = "''Request failed (403). MusicBrainz requires a valid User-Agent. Set MUSICBRAINZ_USER_AGENT to something like: MyApp/1.0.0 (you@example.com)''"
  have m: "includes_str ?m403 ''403''" "includes_str ?m403 ''Set MUSICBRAINZ_USER_AGENT''"
    "includes_str ?m403 ''requires a valid User-Agent''"
    "?m403 \<noteq> ''Request failed (403)''"
    by code_simp+
  have nok: "\<not> resp_ok res" if "resp_status res = 403"
    using that by (simp add: resp_ok_def)
  have p1: "\<exists>msg. fetchRecording res = Inl msg
              \<and> includes_str msg (numberToString (resp_status res))"
    if "\<not> resp_ok res"
    using that m(1)
      includes_str_middle [of "''Request failed (''" "numberToString (resp_status res)" "'')''"]
    by (cases "resp_status res = 403") (simp_all add: fetchRecording_def numberToString_403)
  have p2: "fetchRecording res
              = Inl (''Request failed ('' @ numberToString (resp_status res) @ '')'')"
    if "\<not> resp_ok res" "resp_status res \<noteq> 403"
    using that by (simp add: fetchRecording_def)
  have p3: "\<exists>msg. fetchRecording res = Inl msg
         \<and> msg \<noteq> ''Request failed ('' @ numberToString (resp_status res) @ '')''
         \<and> includes_str msg ''Set MUSICBRAINZ_USER_AGENT''
         \<and> includes_str msg ''requires a valid User-Agent''"
    if "resp_status res = 403"
    using that nok m by (simp add: fetchRecording_def numberToString_403)
  have p4: "runSearchTry lc a sres
              = Inl (''Request failed ('' @ numberToString (resp_status sres) @ '')'')"
    if "\<not> resp_ok sres"
    using that by (simp add: runSearchTry_def)
  have p5: "error (runSearch lc t a sres st)
              = Some (''Request failed ('' @ numberToString (resp_status sres) @ '')'')"
    if "\<not> resp_ok sres" "trim (buildRecordingSearchQuery t a) \<noteq> []"
    using that p4 by (simp add: runSearch_def Let_def)
  show ?thesis
    using p1 p2 p3 p4 p5
      includes_str_middle [of "''Request failed (''" "numberToString (resp_status sres)" "'')''"]
    by blast
qed

theorem request_failure_messages_witness:
  "fetchRecording (Response 500 ()) = Inl ''Request failed (500)''
   \<and> (\<exists>msg. fetchRecording (Response 403 ()) = Inl msg \<and> includes_str msg ''403'')
   \<and> (\<exists>msg. fetchRecording (Response 403 ()) = Inl msg
         \<and> msg \<noteq> ''Request failed (403)''
         \<and> includes_str msg ''Set MUSICBRAINZ_USER_AGENT''
         \<and> includes_str msg ''requires a valid User-Agent'')
   \<and> runSearchTry (\<lambda>x y. 0) '''' (Response 503 \<lparr>recordings = None\<rparr>)
        = Inl ''Request failed (503)''
   \<and> includes_str ''Request failed (503)'' ''503''
   \<and> error (runSearch (\<lambda>x y. 0) ''Yesterday'' '''' (Response 503 \<lparr>recordings = None\<rparr>)
        \<lparr>isLoading = True, error = None, canonical = None, stored = None\<rparr>)
        = Some ''Request failed (503)''"
proof -
  have e: "numberToString 500 = ''500''" "numberToString 503 = ''503''"
    "numberToString 403 = ''403''"
    "trim (buildRecordingSearchQuery ''Yesterday'' '''') \<noteq> []"
    by code_simp+
  have ok: "\<not> resp_ok (Response 500 ())" "\<not> resp_ok (Response 403 ())"
    "\<not> resp_ok (Response 503 \<lparr>recordings = None\<rparr>)"
    by (simp_all add: resp_ok_def)
  show ?thesis
    using request_failure_messages [of "Response 500 ()" "Response 503 \<lparr>recordings = None\<rparr>"
        "\<lambda>x y. 0" "''''" "''Yesterday''"
        "\<lparr>isLoading = True, error = None, canonical = None, stored = None\<rparr>"]
      request_failure_messages [of "Response 403 ()" "Response 503 \<lparr>recordings = None\<rparr>"
        "\<lambda>x y. 0" "''''" "''Yesterday''"
        "\<lparr>isLoading = True, error = None, canonical = None, stored = None\<rparr>"]
      e ok
    by simp
qed

section \<open>Canonical Release Selector: properties\<close>

lemma keyBefore_less: "keyBefore a b \<longleftrightarrow> a < b"
  by (cases a; cases b) (auto simp: keyBefore_def)

lemma pickStep_None: "pickStep r (None, d, q, p) = (Some r, releaseKey r)"
  by (simp add: pickStep_def releaseKey_def Let_def)

lemma pickStep_Some:
  "pickStep r (Some b, releaseKey b)
     = (let w = (if releaseKey r < releaseKey b then r else b) in (Some w, releaseKey w))"
  by (auto simp: pickStep_def releaseKey_def Let_def)

lemma fold_pickStep:
  "fold pickStep rs (Some b, releaseKey b) = (Some (firstLeast releaseKey b rs), releaseKey (firstLeast releaseKey b rs))"
proof (induction rs arbitrary: b)
  case Nil
  show ?case by simp
next
  case (Cons r rs)
  show ?case
    by (simp only: fold_simps pickStep_Some Let_def Cons.IH firstLeast.simps)
qed

lemma pickCanonicalRelease_Cons:
  "pickCanonicalRelease (Some (r # rs)) = Some (firstLeast releaseKey r rs)"
  by (simp add: pickCanonicalRelease_def pickStep_None fold_pickStep)

lemma firstLeast_split:
  fixes k :: "'a \<Rightarrow> 'k::linorder"
  shows   "\<exists>ys zs. b # rs = ys @ firstLeast k b rs # zs
     \<and> (\<forall>y \<in> set ys. k (firstLeast k b rs) < k y)
     \<and> (\<forall>z \<in> set zs. k (firstLeast k b rs) \<le> k z)"
proof (induction rs arbitrary: b)
  case Nil
  show ?case by (rule exI [of _ "[]"], rule exI [of _ "[]"]) simp
next
  case (Cons r rs)
  show ?case
  proof (cases "k r < k b")
    case True
    define w where "w = firstLeast k r rs"
    have fb: "firstLeast k b (r # rs) = w" using True by (simp add: w_def)
    from Cons.IH [of r] obtain ys zs where
      sp: "r # rs = ys @ w # zs"
      and bef: "\<forall>y \<in> set ys. k w < k y"
      and aft: "\<forall>z \<in> set zs. k w \<le> k z"
      unfolding w_def by blast
    have "k w < k b"
    proof (cases ys)
      case Nil
      with sp have "w = r" by simp
      with True show ?thesis by simp
    next
      case (Cons y ys')
      with sp have "y = r" by simp
      with bef Cons have "k w < k r" by simp
      with True show ?thesis by simp
    qed
    with bef have "\<forall>y \<in> set (b # ys). k w < k y" by simp
    moreover have "b # r # rs = (b # ys) @ w # zs" using sp by simp
    ultimately show ?thesis using aft unfolding fb by blast
  next
    case False
    define w where "w = firstLeast k b rs"
    have fb: "firstLeast k b (r # rs) = w" using False by (simp add: w_def)
    from Cons.IH [of b] obtain ys zs where
      sp: "b # rs = ys @ w # zs"
      and bef: "\<forall>y \<in> set ys. k w < k y"
      and aft: "\<forall>z \<in> set zs. k w \<le> k z"
      unfolding w_def by blast
    show ?thesis
    proof (cases ys)
      case Nil
      with sp have "w = b" "rs = zs" by simp_all
      then have "b # r # rs = [] @ w # (r # zs)" by simp
      moreover have "\<forall>z \<in> set (r # zs). k w \<le> k z"
        using aft False \<open>w = b\<close> by auto
      moreover have "\<forall>y \<in> set []. k w < k y" by simp
      ultimately show ?thesis unfolding fb by blast
    next
      case (Cons y ys')
      with sp have "y = b" "rs = ys' @ w # zs" by simp_all
      then have "b # r # rs = (b # r # ys') @ w # zs" by simp
      moreover have "\<forall>y \<in> set (b # r # ys'). k w < k y"
        using bef Cons \<open>y = b\<close> False by auto
      ultimately show ?thesis using aft unfolding fb by blast
    qed
  qed
qed

lemma pick_split:
  assumes "rs \<noteq> []"
  shows "\<exists>w ys zs. pickCanonicalRelease (Some rs) = Some w \<and> rs = ys @ w # zs
     \<and> (\<forall>y \<in> set ys. releaseKey w < releaseKey y)
     \<and> (\<forall>z \<in> set zs. releaseKey w \<le> releaseKey z)"
proof -
  from assms obtain r rs' where rs: "rs = r # rs'" by (cases rs) auto
  show ?thesis
    using firstLeast_split [of r rs' releaseKey] unfolding rs pickCanonicalRelease_Cons by blast
qed

lemma pick_minimal:
  assumes "pickCanonicalRelease (Some rs) = Some w"
  shows "w \<in> set rs \<and> (\<forall>x \<in> set rs. releaseKey w \<le> releaseKey x)"
proof -
  have ne: "rs \<noteq> []" using assms by (auto simp: pickCanonicalRelease_def)
  from pick_split [OF ne] assms show ?thesis by fastforce
qed

lemma pick_perm:
  assumes d: "distinct (map releaseKey rs)" and m: "mset rs' = mset rs"
  shows "pickCanonicalRelease (Some rs') = pickCanonicalRelease (Some rs)"
proof (cases "rs = []")
  case True
  with m show ?thesis by simp
next
  case False
  with m have ne': "rs' \<noteq> []" by auto
  from pick_split [OF False] obtain w where w: "pickCanonicalRelease (Some rs) = Some w" by blast
  from pick_split [OF ne'] obtain w' where w': "pickCanonicalRelease (Some rs') = Some w'" by blast
  have s: "set rs' = set rs" using m by (metis set_mset_mset)
  from pick_minimal [OF w] pick_minimal [OF w'] s
  have "w \<in> set rs" "w' \<in> set rs" "releaseKey w \<le> releaseKey w'" "releaseKey w' \<le> releaseKey w"
    by auto
  then have "releaseKey w = releaseKey w'" by simp
  with d \<open>w \<in> set rs\<close> \<open>w' \<in> set rs\<close> have "w = w'"
    by (meson distinct_map inj_onD)
  with w w' show ?thesis by simp
qed

lemma quality_date [simp]: "getReleaseQualityPenalty (r\<lparr>date := v\<rparr>) = getReleaseQualityPenalty r"
  by (simp add: getReleaseQualityPenalty_def qualityCombinedText_def)

lemma primacy_date [simp]:
  "getPrimaryReleaseGroupPenalty (r\<lparr>date := v\<rparr>) = getPrimaryReleaseGroupPenalty r"
  by (simp add: getPrimaryReleaseGroupPenalty_def primacyCombinedText_def)

lemma releaseDateKey_blank:
  "trim d = [] \<Longrightarrow> releaseDateKey (r\<lparr>date := Some d\<rparr>) = ''9999-99-99''"
  "releaseDateKey (r\<lparr>date := None\<rparr>) = ''9999-99-99''"
  by (simp_all add: releaseDateKey_def)

lemma releaseKey_blankToAbsent [simp]: "releaseKey (blankToAbsent r) = releaseKey r"
  by (auto simp: blankToAbsent_def blankDate_def releaseKey_def releaseDateKey_def
      split: option.splits)

lemma firstLeast_blankToAbsent:
  "firstLeast releaseKey (blankToAbsent b) (map blankToAbsent rs) = blankToAbsent (firstLeast releaseKey b rs)"
  by (induction rs arbitrary: b) simp_all

lemma earliestStep_blank: "trim d = [] \<Longrightarrow> earliestStep (r\<lparr>date := Some d\<rparr>) best = best"
  "earliestStep (r\<lparr>date := None\<rparr>) best = best"
  by (simp_all add: earliestStep_def)

lemma earliest_fold: "getEarliestReleaseDate (Some rs) = fold earliestStep rs ''9999-99-99''"
  by (simp add: getEarliestReleaseDate_def)

lemma trim_idem: "trim (trim s) = trim s"
proof -
  define t where "t = dropWhile isWhiteSpace s"
  define u where "u = dropWhile isWhiteSpace (rev t)"
  have u: "dropWhile isWhiteSpace u = u" unfolding u_def by (rule dropWhile_idem)
  have tr: "trim s = rev u" by (simp add: trim_def t_def u_def)
  have "dropWhile isWhiteSpace (rev u) = rev u"
  proof (cases "u = []")
    case True then show ?thesis by simp
  next
    case False
    have "t \<noteq> []" using False by (auto simp: u_def)
    then have ht: "\<not> isWhiteSpace (hd t)" unfolding t_def by (rule hd_dropWhile)
    have "\<exists>p. rev t = p @ u" unfolding u_def
      by (metis takeWhile_dropWhile_id)
    then obtain p where "rev t = p @ u" by blast
    then have "t = rev u @ rev p" by (metis rev_append rev_rev_ident)
    then have "hd (rev u) = hd t" using False by simp
    with ht have "\<not> isWhiteSpace (hd (rev u))" by simp
    then show ?thesis using False by (cases "rev u") simp_all
  qed
  then have "trim (rev u) = rev u" using u by (simp add: trim_def)
  then show ?thesis by (simp add: tr)
qed

lemma pick_date_order:
  assumes "pickCanonicalRelease (Some rs) = Some w" and "x \<in> set rs"
  shows "releaseDateKey w \<le> releaseDateKey x
     \<and> (releaseDateKey x = releaseDateKey w \<longrightarrow>
          getReleaseQualityPenalty w \<le> getReleaseQualityPenalty x
          \<and> (getReleaseQualityPenalty x = getReleaseQualityPenalty w \<longrightarrow>
               getPrimaryReleaseGroupPenalty w \<le> getPrimaryReleaseGroupPenalty x))"
proof -
  from pick_minimal [OF assms(1)] assms(2) have "releaseKey w \<le> releaseKey x" by blast
  then show ?thesis by (auto simp: releaseKey_def)
qed

text \<open>
  C3. \<open>pickCanonicalRelease\<close> yields nothing for an absent or empty list. On a list that is
  not empty it yields a release \<open>w\<close> of the list such that every release before \<open>w\<close> in the
  list has a key triple strictly after that of \<open>w\<close> and no release after \<open>w\<close> has a key triple
  strictly before it, in the key-by-key order of date key, quality penalty and primacy
  penalty: \<open>w\<close> is the first release with the least triple. So the date key of \<open>w\<close> is least,
  its quality penalty is least among the releases tying on the date, and its primacy penalty
  is least among those tying on both. The result is a function of the list, and two lists with
  the same releases in different orders, their key triples pairwise distinct, have the same
  winner. The triple of a release is its date key and its two penalties; the date key is the
  trimmed date, followed by \<open>-00-00\<close> when it has four characters and by \<open>-00\<close> when it has
  seven, and \<open>9999-99-99\<close> when the date is absent or blank.
\<close>

theorem pickCanonicalRelease_lexicographic:
  "pickCanonicalRelease None = None \<and> pickCanonicalRelease (Some []) = None
   \<and> (rs \<noteq> [] \<longrightarrow>
        (\<exists>w ys zs. pickCanonicalRelease (Some rs) = Some w \<and> rs = ys @ w # zs
           \<and> (\<forall>y \<in> set ys. keyBefore (releaseKey w) (releaseKey y))
           \<and> (\<forall>z \<in> set zs. \<not> keyBefore (releaseKey z) (releaseKey w))))
   \<and> (pickCanonicalRelease (Some rs) = Some v \<and> x \<in> set rs \<longrightarrow>
        releaseDateKey v \<le> releaseDateKey x
        \<and> (releaseDateKey x = releaseDateKey v \<longrightarrow>
             getReleaseQualityPenalty v \<le> getReleaseQualityPenalty x
             \<and> (getReleaseQualityPenalty x = getReleaseQualityPenalty v \<longrightarrow>
                  getPrimaryReleaseGroupPenalty v \<le> getPrimaryReleaseGroupPenalty x)))
   \<and> (distinct (map releaseKey rs) \<and> mset rs' = mset rs \<longrightarrow>
        pickCanonicalRelease (Some rs') = pickCanonicalRelease (Some rs))
   \<and> releaseKey u
        = (releaseDateKey u, getReleaseQualityPenalty u, getPrimaryReleaseGroupPenalty u)
   \<and> (keyBefore (d1, q1, p1) (d2, q2, p2) \<longleftrightarrow>
        d1 < d2 \<or> (d1 = d2 \<and> (q1 < q2 \<or> (q1 = q2 \<and> p1 < p2))))
   \<and> (date u = None \<longrightarrow> releaseDateKey u = ''9999-99-99'')
   \<and> (date u = Some d \<and> trim d = [] \<longrightarrow> releaseDateKey u = ''9999-99-99'')
   \<and> (date u = Some d \<and> trim d \<noteq> [] \<longrightarrow> releaseDateKey u = normalizePartialDate (trim d))
   \<and> (date u = Some d \<and> length (trim d) = 4 \<longrightarrow> releaseDateKey u = trim d @ ''-00-00'')
   \<and> (date u = Some d \<and> length (trim d) = 7 \<longrightarrow> releaseDateKey u = trim d @ ''-00'')
   \<and> (date u = Some d \<and> trim d \<noteq> [] \<and> length (trim d) \<noteq> 4 \<and> length (trim d) \<noteq> 7 \<longrightarrow>
        releaseDateKey u = trim d)"
proof -
  have a: "pickCanonicalRelease None = None" "pickCanonicalRelease (Some []) = None"
    by (simp_all add: pickCanonicalRelease_def)
  have b: "\<exists>w ys zs. pickCanonicalRelease (Some rs) = Some w \<and> rs = ys @ w # zs
           \<and> (\<forall>y \<in> set ys. keyBefore (releaseKey w) (releaseKey y))
           \<and> (\<forall>z \<in> set zs. \<not> keyBefore (releaseKey z) (releaseKey w))"
    if "rs \<noteq> []"
    using pick_split [OF that] unfolding keyBefore_less not_less by blast
  have k: "releaseKey u
        = (releaseDateKey u, getReleaseQualityPenalty u, getPrimaryReleaseGroupPenalty u)"
    by (simp add: releaseKey_def)
  have kb: "keyBefore (d1, q1, p1) (d2, q2, p2) \<longleftrightarrow>
        d1 < d2 \<or> (d1 = d2 \<and> (q1 < q2 \<or> (q1 = q2 \<and> p1 < p2)))"
    by (simp add: keyBefore_def)
  have dk: "date u = None \<longrightarrow> releaseDateKey u = ''9999-99-99''"
    "date u = Some d \<and> trim d = [] \<longrightarrow> releaseDateKey u = ''9999-99-99''"
    "date u = Some d \<and> trim d \<noteq> [] \<longrightarrow> releaseDateKey u = normalizePartialDate (trim d)"
    "date u = Some d \<and> length (trim d) = 4 \<longrightarrow> releaseDateKey u = trim d @ ''-00-00''"
    "date u = Some d \<and> length (trim d) = 7 \<longrightarrow> releaseDateKey u = trim d @ ''-00''"
    "date u = Some d \<and> trim d \<noteq> [] \<and> length (trim d) \<noteq> 4 \<and> length (trim d) \<noteq> 7 \<longrightarrow>
        releaseDateKey u = trim d"
    by (auto simp: releaseDateKey_def normalizePartialDate_def Let_def)
  show ?thesis
    using a b pick_date_order [of rs v x] pick_perm [of rs rs'] k kb dk by blast
qed

theorem pickCanonicalRelease_lexicographic_witness:
  "pickCanonicalRelease (Some [
        \<lparr>release_id = Some ''r1'', title = None, date = Some ''1965-12-03'',
          status = Some ''official'', release_group = None, disambiguation = None\<rparr>,
        \<lparr>release_id = Some ''r2'', title = None, date = Some '' 1965'',
          status = Some ''bootleg'', release_group = None, disambiguation = None\<rparr>])
     = Some \<lparr>release_id = Some ''r2'', title = None, date = Some '' 1965'',
          status = Some ''bootleg'', release_group = None, disambiguation = None\<rparr>
   \<and> pickCanonicalRelease (Some [
        \<lparr>release_id = Some ''r2'', title = None, date = Some '' 1965'',
          status = Some ''bootleg'', release_group = None, disambiguation = None\<rparr>,
        \<lparr>release_id = Some ''r1'', title = None, date = Some ''1965-12-03'',
          status = Some ''official'', release_group = None, disambiguation = None\<rparr>])
     = pickCanonicalRelease (Some [
        \<lparr>release_id = Some ''r1'', title = None, date = Some ''1965-12-03'',
          status = Some ''official'', release_group = None, disambiguation = None\<rparr>,
        \<lparr>release_id = Some ''r2'', title = None, date = Some '' 1965'',
          status = Some ''bootleg'', release_group = None, disambiguation = None\<rparr>])
   \<and> releaseDateKey \<lparr>release_id = Some ''r2'', title = None, date = Some '' 1965'',
          status = Some ''bootleg'', release_group = None, disambiguation = None\<rparr> = ''1965-00-00''
   \<and> releaseDateKey \<lparr>release_id = Some ''r2'', title = None, date = Some '' 1965'',
          status = Some ''bootleg'', release_group = None, disambiguation = None\<rparr>
      \<le> releaseDateKey \<lparr>release_id = Some ''r1'', title = None, date = Some ''1965-12-03'',
          status = Some ''official'', release_group = None, disambiguation = None\<rparr>
   \<and> pickCanonicalRelease (Some [
        \<lparr>release_id = Some ''r3'', title = None, date = Some ''1965'',
          status = Some ''bootleg'', release_group = None, disambiguation = None\<rparr>,
        \<lparr>release_id = Some ''r4'', title = None, date = Some ''1965-00-00'',
          status = Some ''official'', release_group = None, disambiguation = None\<rparr>])
     = Some \<lparr>release_id = Some ''r4'', title = None, date = Some ''1965-00-00'',
          status = Some ''official'', release_group = None, disambiguation = None\<rparr>
   \<and> pickCanonicalRelease (Some [
        \<lparr>release_id = Some ''r5'', title = None, date = Some ''1965-08'',
          status = Some ''official'', release_group = None, disambiguation = None\<rparr>,
        \<lparr>release_id = Some ''r6'', title = None, date = Some ''1965-08-00'',
          status = Some ''official'', release_group = None, disambiguation = None\<rparr>])
     = Some \<lparr>release_id = Some ''r5'', title = None, date = Some ''1965-08'',
          status = Some ''official'', release_group = None, disambiguation = None\<rparr>
   \<and> releaseDateKey \<lparr>release_id = Some ''r5'', title = None, date = Some ''1965-08'',
          status = Some ''official'', release_group = None, disambiguation = None\<rparr> = ''1965-08-00''"
proof -
  let ?r1 = "\<lparr>release_id = Some ''r1'', title = None, date = Some ''1965-12-03'',
          status = Some ''official'', release_group = None, disambiguation = None\<rparr>"
  let ?r2 = "\<lparr>release_id = Some ''r2'', title = None, date = Some '' 1965'',
          status = Some ''bootleg'', release_group = None, disambiguation = None\<rparr>"
  let ?r3 = "\<lparr>release_id = Some ''r3'', title = None, date = Some ''1965'',
          status = Some ''bootleg'', release_group = None, disambiguation = None\<rparr>"
  let ?r4 = "\<lparr>release_id = Some ''r4'', title = None, date = Some ''1965-00-00'',
          status = Some ''official'', release_group = None, disambiguation = None\<rparr>"
  let ?r5 = "\<lparr>release_id = Some ''r5'', title = None, date = Some ''1965-08'',
          status = Some ''official'', release_group = None, disambiguation = None\<rparr>"
  let ?r6 = "\<lparr>release_id = Some ''r6'', title = None, date = Some ''1965-08-00'',
          status = Some ''official'', release_group = None, disambiguation = None\<rparr>"
  have e: "pickCanonicalRelease (Some [?r1, ?r2]) = Some ?r2"
    "distinct (map releaseKey [?r1, ?r2])"
    "pickCanonicalRelease (Some [?r3, ?r4]) = Some ?r4"
    "pickCanonicalRelease (Some [?r5, ?r6]) = Some ?r5"
    "trim '' 1965'' = ''1965''" "trim ''1965-08'' = ''1965-08''"
    by code_simp+
  have m: "mset [?r2, ?r1] = mset [?r1, ?r2]" by simp
  have n: "?r1 \<in> set [?r1, ?r2]" by simp
  have l: "date ?r2 = Some '' 1965''" "length (trim '' 1965'') = 4"
    "date ?r5 = Some ''1965-08''" "length (trim ''1965-08'') = 7"
    by (simp_all add: e(5,6))
  note t1 = pickCanonicalRelease_lexicographic [where rs = "[?r1, ?r2]" and v = ?r2
      and x = ?r1 and rs' = "[?r2, ?r1]" and u = ?r2 and d = "'' 1965''"]
  note t2 = pickCanonicalRelease_lexicographic [where rs = "[?r5, ?r6]" and v = ?r5
      and x = ?r6 and rs' = "[?r6, ?r5]" and u = ?r5 and d = "''1965-08''"]
  have c1: "pickCanonicalRelease (Some [?r2, ?r1]) = pickCanonicalRelease (Some [?r1, ?r2])"
    using t1 e(2) m by blast
  have "releaseDateKey ?r2 = trim '' 1965'' @ ''-00-00''" using t1 l(1,2) by blast
  then have c2: "releaseDateKey ?r2 = ''1965-00-00''" by (simp add: e(5))
  have c3: "releaseDateKey ?r2 \<le> releaseDateKey ?r1" using t1 e(1) n by blast
  have "releaseDateKey ?r5 = trim ''1965-08'' @ ''-00''" using t2 l(3,4) by blast
  then have c4: "releaseDateKey ?r5 = ''1965-08-00''" by (simp add: e(6))
  show ?thesis using e(1,3,4) c1 c2 c3 c4 by blast
qed

text \<open>
  C10. In \<open>pickCanonicalRelease\<close> and \<open>getEarliestReleaseDate\<close> a release whose date is present
  but blank counts as a release without a date: its date key is \<open>9999-99-99\<close>, the key of an
  absent date; taking the blank dates of a list away changes neither the position of the
  release selected nor the earliest date; a release with a blank date leaves the earliest date
  of a list as it is without that release; and the release selected from a list that holds a
  release whose date key is below \<open>9999-99-99\<close> has a date that is present and not blank.
\<close>

theorem blank_date_as_absent:
  "(trim d = [] \<longrightarrow>
      releaseDateKey (r\<lparr>date := Some d\<rparr>) = ''9999-99-99''
      \<and> releaseDateKey (r\<lparr>date := Some d\<rparr>) = releaseDateKey (r\<lparr>date := None\<rparr>)
      \<and> getEarliestReleaseDate (Some (xs @ r\<lparr>date := Some d\<rparr> # ys))
          = getEarliestReleaseDate (Some (xs @ r\<lparr>date := None\<rparr> # ys))
      \<and> getEarliestReleaseDate (Some (xs @ r\<lparr>date := Some d\<rparr> # ys))
          = getEarliestReleaseDate (Some (xs @ ys)))
   \<and> pickCanonicalRelease (Some (map blankToAbsent rs))
       = map_option blankToAbsent (pickCanonicalRelease (Some rs))
   \<and> getEarliestReleaseDate (Some (map blankToAbsent rs)) = getEarliestReleaseDate (Some rs)
   \<and> (x \<in> set rs \<and> releaseDateKey x < ''9999-99-99''
        \<and> pickCanonicalRelease (Some rs) = Some w \<longrightarrow>
          (\<exists>d'. date w = Some d' \<and> trim d' \<noteq> []))"
proof -
  have a: "releaseDateKey (r\<lparr>date := Some d\<rparr>) = ''9999-99-99''
      \<and> releaseDateKey (r\<lparr>date := Some d\<rparr>) = releaseDateKey (r\<lparr>date := None\<rparr>)
      \<and> getEarliestReleaseDate (Some (xs @ r\<lparr>date := Some d\<rparr> # ys))
          = getEarliestReleaseDate (Some (xs @ r\<lparr>date := None\<rparr> # ys))
      \<and> getEarliestReleaseDate (Some (xs @ r\<lparr>date := Some d\<rparr> # ys))
          = getEarliestReleaseDate (Some (xs @ ys))"
    if "trim d = []"
    using that
    by (simp add: releaseDateKey_blank earliest_fold earliestStep_blank
        getEarliestReleaseDate_def)
  have b: "pickCanonicalRelease (Some (map blankToAbsent rs))
       = map_option blankToAbsent (pickCanonicalRelease (Some rs))"
  proof (cases rs)
    case Nil
    then show ?thesis by (simp add: pickCanonicalRelease_def)
  next
    case (Cons r' rs')
    then show ?thesis by (simp add: pickCanonicalRelease_Cons firstLeast_blankToAbsent)
  qed
  have st: "earliestStep (blankToAbsent y) = earliestStep y" for y
    by (auto simp: blankToAbsent_def blankDate_def earliestStep_def fun_eq_iff
        split: option.splits)
  have "fold earliestStep (map blankToAbsent rs) s = fold earliestStep rs s" for s
    by (induction rs arbitrary: s) (simp_all add: st)
  then have c: "getEarliestReleaseDate (Some (map blankToAbsent rs))
      = getEarliestReleaseDate (Some rs)"
    by (simp add: getEarliestReleaseDate_def)
  have e: "\<exists>d'. date w = Some d' \<and> trim d' \<noteq> []"
    if "x \<in> set rs" "releaseDateKey x < ''9999-99-99''"
      "pickCanonicalRelease (Some rs) = Some w"
  proof -
    from pick_date_order [OF that(3) that(1)] that(2)
    have "releaseDateKey w \<noteq> ''9999-99-99''" by auto
    then show ?thesis
      by (auto simp: releaseDateKey_def split: option.splits if_splits)
  qed
  show ?thesis using a b c e by blast
qed

theorem blank_date_as_absent_witness:
  "releaseDateKey \<lparr>release_id = Some ''r1'', title = None, date = Some ''  '',
       status = Some ''official'', release_group = None, disambiguation = None\<rparr>
     = ''9999-99-99''
   \<and> getEarliestReleaseDate (Some [
        \<lparr>release_id = Some ''r2'', title = None, date = Some ''1965'',
          status = Some ''bootleg'', release_group = None, disambiguation = None\<rparr>,
        \<lparr>release_id = Some ''r1'', title = None, date = Some ''  '',
          status = Some ''official'', release_group = None, disambiguation = None\<rparr>])
     = getEarliestReleaseDate (Some [
        \<lparr>release_id = Some ''r2'', title = None, date = Some ''1965'',
          status = Some ''bootleg'', release_group = None, disambiguation = None\<rparr>])
   \<and> (\<exists>d'. date \<lparr>release_id = Some ''r2'', title = None, date = Some ''1965'',
          status = Some ''bootleg'', release_group = None, disambiguation = None\<rparr> = Some d'
         \<and> trim d' \<noteq> [])"
proof -
  let ?r1 = "\<lparr>release_id = Some ''r1'', title = None, date = Some ''  '',
          status = Some ''official'', release_group = None, disambiguation = None\<rparr>"
  let ?r2 = "\<lparr>release_id = Some ''r2'', title = None, date = Some ''1965'',
          status = Some ''bootleg'', release_group = None, disambiguation = None\<rparr>"
  have e: "trim ''  '' = []" "releaseDateKey ?r2 < ''9999-99-99''"
    "pickCanonicalRelease (Some [?r1, ?r2]) = Some ?r2"
    by code_simp+
  have n: "?r2 \<in> set [?r1, ?r2]" by simp
  from blank_date_as_absent [of "''  ''" ?r1 "[?r2]" "[]" "[?r1, ?r2]" ?r2 ?r2] e n
  show ?thesis by auto
qed

section \<open>Recording Ranker: properties\<close>

lemma compareScored_le: "compareScored lc a b \<le> 0 \<Longrightarrow> scoredRankKey a \<le> scoredRankKey b"
  by (auto simp: compareScored_def scoredRankKey_def split: if_splits)

lemma compareScored_gt: "\<not> compareScored lc a b \<le> 0 \<Longrightarrow> scoredRankKey b \<le> scoredRankKey a"
  by (auto simp: compareScored_def scoredRankKey_def split: if_splits)

lemma mset_insertBy: "mset (insertBy cmp x ys) = add_mset x (mset ys)"
  by (induction ys) simp_all

lemma set_insertBy: "set (insertBy cmp x ys) = insert x (set ys)"
  by (induction ys) auto

lemma mset_sortBy: "mset (sortBy cmp xs) = mset xs"
  by (induction xs) (simp_all add: sortBy_def mset_insertBy)

lemma sorted_insertBy:
  fixes k :: "'a \<Rightarrow> 'k::linorder"
  assumes le: "\<And>a b. cmp a b \<le> 0 \<Longrightarrow> k a \<le> k b"
    and gt: "\<And>a b. \<not> cmp a b \<le> 0 \<Longrightarrow> k b \<le> k a"
    and s: "sorted (map k ys)"
  shows "sorted (map k (insertBy cmp x ys))"
  using s
proof (induction ys)
  case Nil
  show ?case by simp
next
  case (Cons y ys)
  show ?case
  proof (cases "cmp x y \<le> 0")
    case True
    from le [OF True] Cons.prems show ?thesis using True by auto
  next
    case False
    from gt [OF False] Cons show ?thesis using False by (auto simp: set_insertBy)
  qed
qed

lemma sorted_sortBy:
  fixes k :: "'a \<Rightarrow> 'k::linorder"
  assumes le: "\<And>a b. cmp a b \<le> 0 \<Longrightarrow> k a \<le> k b"
    and gt: "\<And>a b. \<not> cmp a b \<le> 0 \<Longrightarrow> k b \<le> k a"
  shows "sorted (map k (sortBy cmp xs))"
proof (induction xs)
  case Nil
  show ?case by (simp add: sortBy_def)
next
  case (Cons x xs)
  from sorted_insertBy [of cmp k, OF le gt Cons.IH]
  show ?case by (simp add: sortBy_def)
qed

lemma scoreRecording_fields:
  "rec (scoreRecording a r) = r"
  "artistMatch (scoreRecording a r) = isExactArtistMatch r a"
  "earliestDate (scoreRecording a r) = getEarliestReleaseDate (releases r)"
  by (simp_all add: scoreRecording_def Let_def split: prod.splits)

lemma scoredRankKey_score: "scoredRankKey (scoreRecording a r) = recordingRankKey a r"
  by (simp add: scoredRankKey_def recordingRankKey_def scoreRecording_fields)

lemma rank_mset: "mset (rankRecordings lc recs q) = mset recs"
proof -
  let ?S = "sortBy (compareScored lc) (map (scoreRecording (trim q)) recs)"
  have "mset (map rec ?S) = image_mset rec (mset ?S)" by simp
  also have "\<dots> = image_mset rec (mset (map (scoreRecording (trim q)) recs))"
    by (simp only: mset_sortBy)
  also have "\<dots> = mset (map (\<lambda>r. rec (scoreRecording (trim q) r)) recs)"
    by (simp add: image_mset.compositionality comp_def)
  also have "\<dots> = mset recs" by (simp add: scoreRecording_fields)
  finally show ?thesis by (simp add: rankRecordings_def Let_def)
qed

lemma rank_sorted: "sorted (map (recordingRankKey (trim q)) (rankRecordings lc recs q))"
proof -
  let ?S = "sortBy (compareScored lc) (map (scoreRecording (trim q)) recs)"
  have "set ?S = set (map (scoreRecording (trim q)) recs)"
    by (metis mset_sortBy set_mset_mset)
  then have "\<forall>s \<in> set ?S. recordingRankKey (trim q) (rec s) = scoredRankKey s"
    by (auto simp: scoredRankKey_score scoreRecording_fields)
  then have eq: "map (\<lambda>s. recordingRankKey (trim q) (rec s)) ?S = map scoredRankKey ?S"
    by simp
  have srt: "sorted (map scoredRankKey ?S)"
    by (rule sorted_sortBy [OF compareScored_le compareScored_gt])
  have "sorted (map (\<lambda>s. recordingRankKey (trim q) (rec s)) ?S)"
    unfolding eq by (rule srt)
  then show ?thesis by (simp add: rankRecordings_def Let_def comp_def)
qed

lemma rank_position:
  assumes "i < length (rankRecordings lc recs q)" "j < length (rankRecordings lc recs q)"
    and "recordingRankKey (trim q) (rankRecordings lc recs q ! i)
          < recordingRankKey (trim q) (rankRecordings lc recs q ! j)"
  shows "i < j"
proof (rule ccontr)
  assume "\<not> i < j"
  then have "j \<le> i" by simp
  with rank_sorted [of q lc recs] assms(1)
  have "map (recordingRankKey (trim q)) (rankRecordings lc recs q) ! j
      \<le> map (recordingRankKey (trim q)) (rankRecordings lc recs q) ! i"
    by (simp add: sorted_iff_nth_mono del: nth_map)
  with assms show False by simp
qed

lemma normalizeForCompare_Nil: "normalizeForCompare [] = []"
  by (simp add: normalizeForCompare_def toLowerCase_def trim_def)

lemma isExactArtistMatch_iff:
  "isExactArtistMatch r a \<longleftrightarrow>
     normalizeForCompare a \<noteq> []
     \<and> (\<exists>cs c n. artist_credit r = Some cs \<and> c \<in> set cs \<and> creditDisplayName c = Some n
           \<and> normalizeForCompare n = normalizeForCompare a)"
  by (auto simp: isExactArtistMatch_def Let_def normalizeForCompare_Nil
      split: option.splits)

lemma append_less_same_length:
  fixes a b :: "'a::linorder list"
  shows "length a = length b \<Longrightarrow> a < b \<Longrightarrow> a @ t < b @ u"
  by (induction a b rule: list_induct2) auto

lemma append_le_less:
  fixes a b :: "'a::linorder list"
  shows "length a = length b \<Longrightarrow> a \<le> b \<Longrightarrow> t < u \<Longrightarrow> a @ t < b @ u"
  by (induction a b rule: list_induct2) auto

lemma pointwise_le:
  fixes xs ys :: "'a::linorder list"
  shows "list_all2 (\<le>) xs ys \<Longrightarrow> xs \<le> ys"
  by (induction rule: list_all2_induct) (auto simp: le_less)

lemma isYear_le: "isYear y \<Longrightarrow> y \<le> ''9999''"
proof -
  assume y: "isYear y"
  then have "length y = Suc (Suc (Suc (Suc 0)))" by (simp add: isYear_def)
  then obtain a b c d where abcd: "y = [a, b, c, d]"
    by (auto simp: length_Suc_conv)
  with y have "list_all2 (\<le>) y ''9999''" by (simp add: isYear_def isDigit_def)
  then show ?thesis by (rule pointwise_le)
qed

lemma months_less: "\<forall>m \<in> set [''01'', ''02'', ''03'', ''04'', ''05'', ''06'', ''07'', ''08'', ''09'',
     ''10'', ''11'', ''12'']. length m = 2 \<and> m < ''99''"
  by code_simp

lemma isMonth_less: "isMonth m \<Longrightarrow> length m = 2 \<and> m < ''99''"
  using months_less unfolding isMonth_def by blast

lemma drop4: "4 < length s \<Longrightarrow> drop 4 s = s ! 4 # drop 5 s"
  using Cons_nth_drop_Suc [of 4 s] by simp

lemma calendar_before_sentinel:
  assumes "isCalendarDate s"
  shows "normalizePartialDate s < ''9999-99-99''"
proof -
  consider (y) "isYear s"
    | (ym) "length s = 7" "isYear (take 4 s)" "s ! 4 = CHR ''-''" "isMonth (drop 5 s)"
    | (ymd) "length s = 10" "isYear (take 4 s)" "s ! 4 = CHR ''-''" "isMonth (take 2 (drop 5 s))"
    using assms by (auto simp: isCalendarDate_def)
  then show ?thesis
  proof cases
    case y
    then have l: "length s = 4" by (simp add: isYear_def)
    have "s @ ''-00-00'' < ''9999'' @ ''-99-99''"
      by (rule append_le_less) (use y l isYear_le in simp_all)
    then show ?thesis using l by (simp add: normalizePartialDate_def)
  next
    case ym
    have d4: "drop 4 s = CHR ''-'' # drop 5 s"
      using drop4 [of s] ym(1,3) by simp
    have "drop 5 s @ ''-00'' < ''99'' @ ''-99''"
      by (rule append_less_same_length) (use isMonth_less [OF ym(4)] in simp_all)
    then have t: "drop 4 s @ ''-00'' < ''-99-99''" by (simp add: d4)
    have "take 4 s @ (drop 4 s @ ''-00'') < ''9999'' @ ''-99-99''"
      by (rule append_le_less) (use ym isYear_le t in simp_all)
    moreover have "take 4 s @ (drop 4 s @ ''-00'') = s @ ''-00''"
      by (simp flip: append_assoc)
    ultimately have "s @ ''-00'' < ''9999'' @ ''-99-99''" by (simp only:)
    then show ?thesis using ym(1) by (simp add: normalizePartialDate_def)
  next
    case ymd
    have d4: "drop 4 s = CHR ''-'' # drop 5 s"
      using drop4 [of s] ymd(1,3) by simp
    have "take 2 (drop 5 s) @ drop 2 (drop 5 s) < ''99'' @ ''-99''"
      by (rule append_less_same_length) (use isMonth_less [OF ymd(4)] in simp_all)
    moreover have "take 2 (drop 5 s) @ drop 2 (drop 5 s) = drop 5 s"
      by (rule append_take_drop_id)
    ultimately have "drop 5 s < ''99'' @ ''-99''" by (simp only:)
    then have t: "drop 4 s < ''-99-99''" by (simp add: d4)
    have "take 4 s @ drop 4 s < ''9999'' @ ''-99-99''"
      by (rule append_le_less) (use ymd isYear_le t in simp_all)
    then show ?thesis using ymd(1) by (simp add: normalizePartialDate_def)
  qed
qed

lemma earliestStep_le: "earliestStep r b \<le> b"
  by (auto simp: earliestStep_def Let_def)

lemma fold_earliestStep_le: "fold earliestStep rs b \<le> b"
proof (induction rs arbitrary: b)
  case Nil show ?case by simp
next
  case (Cons r rs)
  have "fold earliestStep rs (earliestStep r b) \<le> earliestStep r b" by (rule Cons.IH)
  also have "\<dots> \<le> b" by (rule earliestStep_le)
  finally show ?case by simp
qed

lemma fold_earliestStep_mem:
  assumes "x \<in> set rs" "date x = Some d" "trim d \<noteq> []"
  shows "fold earliestStep rs b \<le> normalizePartialDate (trim d)"
  using assms(1)
proof (induction rs arbitrary: b)
  case Nil then show ?case by simp
next
  case (Cons r rs)
  show ?case
  proof (cases "x = r")
    case True
    have "fold earliestStep rs (earliestStep r b) \<le> earliestStep r b"
      by (rule fold_earliestStep_le)
    also have "\<dots> \<le> normalizePartialDate (trim d)"
      using True assms(2,3) by (auto simp: earliestStep_def Let_def)
    finally show ?thesis by simp
  next
    case False
    with Cons.prems have "x \<in> set rs" by simp
    from Cons.IH [OF this] show ?thesis by simp
  qed
qed

lemma calendar_nonblank: "isCalendarDate s \<Longrightarrow> s \<noteq> []"
  by (auto simp: isCalendarDate_def isYear_def)

lemma hasRealDate_earliest:
  assumes "hasRealDate r"
  shows "getEarliestReleaseDate (releases r) < ''9999-99-99''"
proof -
  from assms obtain rs x d where
    h: "releases r = Some rs" "x \<in> set rs" "date x = Some d" "isCalendarDate (trim d)"
    by (auto simp: hasRealDate_def split: option.splits)
  have "fold earliestStep rs ''9999-99-99'' \<le> normalizePartialDate (trim d)"
    by (rule fold_earliestStep_mem [OF h(2,3) calendar_nonblank [OF h(4)]])
  also have "\<dots> < ''9999-99-99''" by (rule calendar_before_sentinel [OF h(4)])
  finally show ?thesis using h(1,2) by (auto simp: getEarliestReleaseDate_def)
qed

lemma noReleases_earliest: "noReleases r \<Longrightarrow> getEarliestReleaseDate (releases r) = ''9999-99-99''"
  by (auto simp: noReleases_def getEarliestReleaseDate_def split: option.splits)

lemma noReleases_sentinels:
  "noReleases r \<Longrightarrow> bestQuality (scoreRecording a r) = 999
     \<and> bestPrimaryPenalty (scoreRecording a r) = 99"
  by (auto simp: noReleases_def scoreRecording_def Let_def split: option.splits)

lemma scoreStep_le: "fst (scoreStep r s) \<le> fst s \<and> snd (scoreStep r s) \<le> snd s"
  by (cases s) (simp add: scoreStep_def Let_def)

lemma fold_scoreStep_le:
  "fst (fold scoreStep rs s) \<le> fst s \<and> snd (fold scoreStep rs s) \<le> snd s"
proof (induction rs arbitrary: s)
  case Nil show ?case by simp
next
  case (Cons r rs)
  from Cons.IH [of "scoreStep r s"] scoreStep_le [of r s] show ?case by simp
qed

lemma fold_scoreStep_mem:
  "x \<in> set rs \<Longrightarrow> fst (fold scoreStep rs s) \<le> getReleaseQualityPenalty x
     \<and> snd (fold scoreStep rs s) \<le> getPrimaryReleaseGroupPenalty x"
proof (induction rs arbitrary: s)
  case Nil then show ?case by simp
next
  case (Cons r rs)
  show ?case
  proof (cases "x = r")
    case True
    have "fst (scoreStep r s) \<le> getReleaseQualityPenalty r
        \<and> snd (scoreStep r s) \<le> getPrimaryReleaseGroupPenalty r"
      by (cases s) (simp add: scoreStep_def Let_def)
    with fold_scoreStep_le [of rs "scoreStep r s"] True show ?thesis by simp
  next
    case False
    with Cons.prems have "x \<in> set rs" by simp
    from Cons.IH [OF this] show ?thesis by simp
  qed
qed

lemma scored_with_release:
  assumes "releases r = Some rs" "x \<in> set rs"
  shows "bestQuality (scoreRecording a r) \<le> getReleaseQualityPenalty x
     \<and> bestPrimaryPenalty (scoreRecording a r) \<le> getPrimaryReleaseGroupPenalty x"
proof -
  obtain bq bp where f: "fold scoreStep rs (9999, 9999) = (bq, bp)" by fastforce
  from fold_scoreStep_mem [OF assms(2), of "(9999, 9999)"] f
  have le: "bq \<le> getReleaseQualityPenalty x" "bp \<le> getPrimaryReleaseGroupPenalty x" by simp_all
  with penalties_bounded [of x] have "bq \<noteq> 9999" "bp \<noteq> 9999" by simp_all
  with le f assms(1) show ?thesis by (simp add: scoreRecording_def Let_def)
qed

lemma fold_earliestStep_attained:
  "fold earliestStep rs b = b
     \<or> (\<exists>y \<in> set rs. \<exists>dy. date y = Some dy \<and> trim dy \<noteq> []
           \<and> fold earliestStep rs b = normalizePartialDate (trim dy))"
proof (induction rs arbitrary: b)
  case Nil
  show ?case by simp
next
  case (Cons r rs)
  have s: "earliestStep r b = b
      \<or> (\<exists>dy. date r = Some dy \<and> trim dy \<noteq> []
            \<and> earliestStep r b = normalizePartialDate (trim dy))"
    by (auto simp: earliestStep_def Let_def split: option.splits)
  from Cons.IH [of "earliestStep r b"] s show ?case by auto
qed

text \<open>
  C4. The ranking is a rearrangement of the recordings given. In it every recording whose
  artist matches stands before every recording whose artist does not, whatever their other
  keys, and of two recordings of equal match status the one with the strictly smaller earliest
  date key stands first. The match status is that of the ranker's \<open>artistMatch\<close> key: the
  query, trimmed and lower-cased, is not empty and equals the trimmed, lower-cased display
  name of at least one artist credit, the display name of a credit being its own name when it
  has one and the name of its artist otherwise. A query that is empty or white space only
  matches no recording. The earliest date key of a recording is the least of \<open>9999-99-99\<close> and
  the normalized dates of its releases whose date is not blank: it is at most each of them and
  it is one of them; the normalized date is the trimmed date, followed by \<open>-00-00\<close> when it
  has four characters and by \<open>-00\<close> when it has seven.
\<close>

theorem rankRecordings_artist_then_date:
  "mset (rankRecordings lc recs q) = mset recs
   \<and> (i < length (rankRecordings lc recs q) \<and> j < length (rankRecordings lc recs q)
        \<and> isExactArtistMatch (rankRecordings lc recs q ! i) (trim q)
        \<and> \<not> isExactArtistMatch (rankRecordings lc recs q ! j) (trim q) \<longrightarrow> i < j)
   \<and> (i < length (rankRecordings lc recs q) \<and> j < length (rankRecordings lc recs q)
        \<and> isExactArtistMatch (rankRecordings lc recs q ! i) (trim q)
            = isExactArtistMatch (rankRecordings lc recs q ! j) (trim q)
        \<and> getEarliestReleaseDate (releases (rankRecordings lc recs q ! i))
            < getEarliestReleaseDate (releases (rankRecordings lc recs q ! j)) \<longrightarrow> i < j)
   \<and> artistMatch (scoreRecording (trim q) r) = isExactArtistMatch r (trim q)
   \<and> earliestDate (scoreRecording (trim q) r) = getEarliestReleaseDate (releases r)
   \<and> (isExactArtistMatch r (trim q) \<longleftrightarrow>
        normalizeForCompare q \<noteq> []
        \<and> (\<exists>cs c n. artist_credit r = Some cs \<and> c \<in> set cs \<and> creditDisplayName c = Some n
              \<and> normalizeForCompare n = normalizeForCompare q))
   \<and> (trim q = [] \<longrightarrow> \<not> isExactArtistMatch r (trim q) \<and> \<not> isExactArtistMatch r q)
   \<and> normalizeForCompare t = toLowerCase (trim t)
   \<and> (credit_name cr = Some nm \<longrightarrow> creditDisplayName cr = Some nm)
   \<and> (credit_name cr = None \<and> credit_artist cr = Some ar \<longrightarrow>
        creditDisplayName cr = artist_name ar)
   \<and> (credit_name cr = None \<and> credit_artist cr = None \<longrightarrow> creditDisplayName cr = None)
   \<and> getEarliestReleaseDate None = ''9999-99-99''
   \<and> getEarliestReleaseDate (Some []) = ''9999-99-99''
   \<and> getEarliestReleaseDate (Some rs) \<le> ''9999-99-99''
   \<and> (x \<in> set rs \<and> date x = Some dx \<and> trim dx \<noteq> [] \<longrightarrow>
        getEarliestReleaseDate (Some rs) \<le> normalizePartialDate (trim dx))
   \<and> (getEarliestReleaseDate (Some rs) = ''9999-99-99''
        \<or> (\<exists>y \<in> set rs. \<exists>dy. date y = Some dy \<and> trim dy \<noteq> []
              \<and> getEarliestReleaseDate (Some rs) = normalizePartialDate (trim dy)))
   \<and> (length t = 4 \<longrightarrow> normalizePartialDate t = t @ ''-00-00'')
   \<and> (length t = 7 \<longrightarrow> normalizePartialDate t = t @ ''-00'')
   \<and> (length t \<noteq> 4 \<and> length t \<noteq> 7 \<longrightarrow> normalizePartialDate t = t)"
proof -
  let ?out = "rankRecordings lc recs q"
  have a: "i < j"
    if "i < length ?out" "j < length ?out" "isExactArtistMatch (?out ! i) (trim q)"
      "\<not> isExactArtistMatch (?out ! j) (trim q)"
    using that by (intro rank_position [of i lc recs q j]) (simp_all add: recordingRankKey_def)
  have b: "i < j"
    if "i < length ?out" "j < length ?out"
      "isExactArtistMatch (?out ! i) (trim q) = isExactArtistMatch (?out ! j) (trim q)"
      "getEarliestReleaseDate (releases (?out ! i))
         < getEarliestReleaseDate (releases (?out ! j))"
    using that by (intro rank_position [of i lc recs q j]) (simp_all add: recordingRankKey_def)
  have n: "normalizeForCompare (trim q) = normalizeForCompare q"
    by (simp add: normalizeForCompare_def trim_idem)
  have c: "isExactArtistMatch r (trim q) \<longleftrightarrow>
        normalizeForCompare q \<noteq> []
        \<and> (\<exists>cs c n. artist_credit r = Some cs \<and> c \<in> set cs \<and> creditDisplayName c = Some n
              \<and> normalizeForCompare n = normalizeForCompare q)"
    using isExactArtistMatch_iff [of r "trim q"] unfolding n .
  have d: "\<not> isExactArtistMatch r (trim q) \<and> \<not> isExactArtistMatch r q" if "trim q = []"
  proof -
    have "normalizeForCompare q = []"
      using that by (simp add: normalizeForCompare_def toLowerCase_def)
    then show ?thesis using n by (simp add: isExactArtistMatch_def)
  qed
  have nf: "normalizeForCompare t = toLowerCase (trim t)"
    by (simp add: normalizeForCompare_def)
  have dn: "credit_name cr = Some nm \<longrightarrow> creditDisplayName cr = Some nm"
    "credit_name cr = None \<and> credit_artist cr = Some ar \<longrightarrow>
        creditDisplayName cr = artist_name ar"
    "credit_name cr = None \<and> credit_artist cr = None \<longrightarrow> creditDisplayName cr = None"
    by (simp_all add: creditDisplayName_def)
  have e0: "getEarliestReleaseDate None = ''9999-99-99''"
    "getEarliestReleaseDate (Some []) = ''9999-99-99''"
    by (simp_all add: getEarliestReleaseDate_def)
  have e1: "getEarliestReleaseDate (Some rs) \<le> ''9999-99-99''"
    using fold_earliestStep_le [of rs "''9999-99-99''"] by (simp add: getEarliestReleaseDate_def)
  have e2: "getEarliestReleaseDate (Some rs) \<le> normalizePartialDate (trim dx)"
    if "x \<in> set rs" "date x = Some dx" "trim dx \<noteq> []"
    using fold_earliestStep_mem [OF that, of "''9999-99-99''"] that(1)
    by (auto simp: getEarliestReleaseDate_def)
  have e3: "getEarliestReleaseDate (Some rs) = ''9999-99-99''
        \<or> (\<exists>y \<in> set rs. \<exists>dy. date y = Some dy \<and> trim dy \<noteq> []
              \<and> getEarliestReleaseDate (Some rs) = normalizePartialDate (trim dy))"
  proof (cases "rs = []")
    case True
    then show ?thesis by (simp add: getEarliestReleaseDate_def)
  next
    case False
    then have "getEarliestReleaseDate (Some rs) = fold earliestStep rs ''9999-99-99''"
      by (simp add: getEarliestReleaseDate_def)
    with fold_earliestStep_attained [of rs "''9999-99-99''"] show ?thesis by simp
  qed
  have np: "length t = 4 \<longrightarrow> normalizePartialDate t = t @ ''-00-00''"
    "length t = 7 \<longrightarrow> normalizePartialDate t = t @ ''-00''"
    "length t \<noteq> 4 \<and> length t \<noteq> 7 \<longrightarrow> normalizePartialDate t = t"
    by (simp_all add: normalizePartialDate_def)
  have first: "mset ?out = mset recs
   \<and> (i < length ?out \<and> j < length ?out
        \<and> isExactArtistMatch (?out ! i) (trim q)
        \<and> \<not> isExactArtistMatch (?out ! j) (trim q) \<longrightarrow> i < j)
   \<and> (i < length ?out \<and> j < length ?out
        \<and> isExactArtistMatch (?out ! i) (trim q) = isExactArtistMatch (?out ! j) (trim q)
        \<and> getEarliestReleaseDate (releases (?out ! i))
            < getEarliestReleaseDate (releases (?out ! j)) \<longrightarrow> i < j)
   \<and> artistMatch (scoreRecording (trim q) r) = isExactArtistMatch r (trim q)
   \<and> earliestDate (scoreRecording (trim q) r) = getEarliestReleaseDate (releases r)
   \<and> (isExactArtistMatch r (trim q) \<longleftrightarrow>
        normalizeForCompare q \<noteq> []
        \<and> (\<exists>cs c n. artist_credit r = Some cs \<and> c \<in> set cs \<and> creditDisplayName c = Some n
              \<and> normalizeForCompare n = normalizeForCompare q))
   \<and> (trim q = [] \<longrightarrow> \<not> isExactArtistMatch r (trim q) \<and> \<not> isExactArtistMatch r q)"
    using rank_mset [of lc recs q] a b c d scoreRecording_fields(2,3) [of "trim q" r]
    by blast
  have second: "normalizeForCompare t = toLowerCase (trim t)
   \<and> (credit_name cr = Some nm \<longrightarrow> creditDisplayName cr = Some nm)
   \<and> (credit_name cr = None \<and> credit_artist cr = Some ar \<longrightarrow>
        creditDisplayName cr = artist_name ar)
   \<and> (credit_name cr = None \<and> credit_artist cr = None \<longrightarrow> creditDisplayName cr = None)
   \<and> getEarliestReleaseDate None = ''9999-99-99''
   \<and> getEarliestReleaseDate (Some []) = ''9999-99-99''
   \<and> getEarliestReleaseDate (Some rs) \<le> ''9999-99-99''
   \<and> (x \<in> set rs \<and> date x = Some dx \<and> trim dx \<noteq> [] \<longrightarrow>
        getEarliestReleaseDate (Some rs) \<le> normalizePartialDate (trim dx))
   \<and> (getEarliestReleaseDate (Some rs) = ''9999-99-99''
        \<or> (\<exists>y \<in> set rs. \<exists>dy. date y = Some dy \<and> trim dy \<noteq> []
              \<and> getEarliestReleaseDate (Some rs) = normalizePartialDate (trim dy)))
   \<and> (length t = 4 \<longrightarrow> normalizePartialDate t = t @ ''-00-00'')
   \<and> (length t = 7 \<longrightarrow> normalizePartialDate t = t @ ''-00'')
   \<and> (length t \<noteq> 4 \<and> length t \<noteq> 7 \<longrightarrow> normalizePartialDate t = t)"
    using nf dn e0 e1 e2 e3 np by blast
  show ?thesis using first second by (elim conjE) (intro conjI; assumption)
qed

theorem rankRecordings_artist_then_date_witness:
  "rankRecordings (\<lambda>x y. 0) [
        \<lparr>recording_id = ''a2'', recording_title = ''Yesterday'',
          artist_credit = Some [\<lparr>credit_name = Some ''Someone Else'',
            credit_artist = Some \<lparr>artist_id = None, artist_name = Some ''The Beatles''\<rparr>\<rparr>],
          releases = Some [\<lparr>release_id = None, title = None, date = Some ''1960'',
            status = Some ''official'', release_group = None, disambiguation = None\<rparr>]\<rparr>,
        \<lparr>recording_id = ''a3'', recording_title = ''Yesterday'',
          artist_credit = Some [\<lparr>credit_name = None,
            credit_artist = Some \<lparr>artist_id = None, artist_name = Some ''the beatles''\<rparr>\<rparr>],
          releases = Some [\<lparr>release_id = None, title = None, date = Some '' 1970-03'',
            status = Some ''official'', release_group = None, disambiguation = None\<rparr>]\<rparr>,
        \<lparr>recording_id = ''a1'', recording_title = ''Yesterday'',
          artist_credit = Some [\<lparr>credit_name = Some ''The Beatles'',
            credit_artist = Some \<lparr>artist_id = None, artist_name = Some ''Someone''\<rparr>\<rparr>],
          releases = Some [\<lparr>release_id = None, title = None, date = Some ''1999'',
            status = Some ''official'', release_group = None, disambiguation = None\<rparr>,
          \<lparr>release_id = None, title = None, date = Some ''1965'',
            status = Some ''official'', release_group = None, disambiguation = None\<rparr>]\<rparr>] '' The Beatles ''
     = [\<lparr>recording_id = ''a1'', recording_title = ''Yesterday'',
          artist_credit = Some [\<lparr>credit_name = Some ''The Beatles'',
            credit_artist = Some \<lparr>artist_id = None, artist_name = Some ''Someone''\<rparr>\<rparr>],
          releases = Some [\<lparr>release_id = None, title = None, date = Some ''1999'',
            status = Some ''official'', release_group = None, disambiguation = None\<rparr>,
          \<lparr>release_id = None, title = None, date = Some ''1965'',
            status = Some ''official'', release_group = None, disambiguation = None\<rparr>]\<rparr>,
        \<lparr>recording_id = ''a3'', recording_title = ''Yesterday'',
          artist_credit = Some [\<lparr>credit_name = None,
            credit_artist = Some \<lparr>artist_id = None, artist_name = Some ''the beatles''\<rparr>\<rparr>],
          releases = Some [\<lparr>release_id = None, title = None, date = Some '' 1970-03'',
            status = Some ''official'', release_group = None, disambiguation = None\<rparr>]\<rparr>,
        \<lparr>recording_id = ''a2'', recording_title = ''Yesterday'',
          artist_credit = Some [\<lparr>credit_name = Some ''Someone Else'',
            credit_artist = Some \<lparr>artist_id = None, artist_name = Some ''The Beatles''\<rparr>\<rparr>],
          releases = Some [\<lparr>release_id = None, title = None, date = Some ''1960'',
            status = Some ''official'', release_group = None, disambiguation = None\<rparr>]\<rparr>]
   \<and> mset (rankRecordings (\<lambda>x y. 0) [
        \<lparr>recording_id = ''a2'', recording_title = ''Yesterday'',
          artist_credit = Some [\<lparr>credit_name = Some ''Someone Else'',
            credit_artist = Some \<lparr>artist_id = None, artist_name = Some ''The Beatles''\<rparr>\<rparr>],
          releases = Some [\<lparr>release_id = None, title = None, date = Some ''1960'',
            status = Some ''official'', release_group = None, disambiguation = None\<rparr>]\<rparr>,
        \<lparr>recording_id = ''a3'', recording_title = ''Yesterday'',
          artist_credit = Some [\<lparr>credit_name = None,
            credit_artist = Some \<lparr>artist_id = None, artist_name = Some ''the beatles''\<rparr>\<rparr>],
          releases = Some [\<lparr>release_id = None, title = None, date = Some '' 1970-03'',
            status = Some ''official'', release_group = None, disambiguation = None\<rparr>]\<rparr>,
        \<lparr>recording_id = ''a1'', recording_title = ''Yesterday'',
          artist_credit = Some [\<lparr>credit_name = Some ''The Beatles'',
            credit_artist = Some \<lparr>artist_id = None, artist_name = Some ''Someone''\<rparr>\<rparr>],
          releases = Some [\<lparr>release_id = None, title = None, date = Some ''1999'',
            status = Some ''official'', release_group = None, disambiguation = None\<rparr>,
          \<lparr>release_id = None, title = None, date = Some ''1965'',
            status = Some ''official'', release_group = None, disambiguation = None\<rparr>]\<rparr>] '' The Beatles '')
     = mset [
        \<lparr>recording_id = ''a2'', recording_title = ''Yesterday'',
          artist_credit = Some [\<lparr>credit_name = Some ''Someone Else'',
            credit_artist = Some \<lparr>artist_id = None, artist_name = Some ''The Beatles''\<rparr>\<rparr>],
          releases = Some [\<lparr>release_id = None, title = None, date = Some ''1960'',
            status = Some ''official'', release_group = None, disambiguation = None\<rparr>]\<rparr>,
        \<lparr>recording_id = ''a3'', recording_title = ''Yesterday'',
          artist_credit = Some [\<lparr>credit_name = None,
            credit_artist = Some \<lparr>artist_id = None, artist_name = Some ''the beatles''\<rparr>\<rparr>],
          releases = Some [\<lparr>release_id = None, title = None, date = Some '' 1970-03'',
            status = Some ''official'', release_group = None, disambiguation = None\<rparr>]\<rparr>,
        \<lparr>recording_id = ''a1'', recording_title = ''Yesterday'',
          artist_credit = Some [\<lparr>credit_name = Some ''The Beatles'',
            credit_artist = Some \<lparr>artist_id = None, artist_name = Some ''Someone''\<rparr>\<rparr>],
          releases = Some [\<lparr>release_id = None, title = None, date = Some ''1999'',
            status = Some ''official'', release_group = None, disambiguation = None\<rparr>,
          \<lparr>release_id = None, title = None, date = Some ''1965'',
            status = Some ''official'', release_group = None, disambiguation = None\<rparr>]\<rparr>]
   \<and> getEarliestReleaseDate (Some [\<lparr>release_id = None, title = None, date = Some ''1999'',
            status = Some ''official'', release_group = None, disambiguation = None\<rparr>,
          \<lparr>release_id = None, title = None, date = Some ''1965'',
            status = Some ''official'', release_group = None, disambiguation = None\<rparr>]) = ''1965-00-00''
   \<and> getEarliestReleaseDate (Some [\<lparr>release_id = None, title = None, date = Some ''1999'',
            status = Some ''official'', release_group = None, disambiguation = None\<rparr>,
          \<lparr>release_id = None, title = None, date = Some ''1965'',
            status = Some ''official'', release_group = None, disambiguation = None\<rparr>])
       \<le> normalizePartialDate (trim ''1965'')
   \<and> normalizePartialDate ''1965'' = ''1965'' @ ''-00-00''
   \<and> isExactArtistMatch \<lparr>recording_id = ''a1'', recording_title = ''Yesterday'',
          artist_credit = Some [\<lparr>credit_name = Some ''The Beatles'',
            credit_artist = Some \<lparr>artist_id = None, artist_name = Some ''Someone''\<rparr>\<rparr>],
          releases = Some [\<lparr>release_id = None, title = None, date = Some ''1999'',
            status = Some ''official'', release_group = None, disambiguation = None\<rparr>,
          \<lparr>release_id = None, title = None, date = Some ''1965'',
            status = Some ''official'', release_group = None, disambiguation = None\<rparr>]\<rparr> (trim '' The Beatles '')
   \<and> \<not> isExactArtistMatch \<lparr>recording_id = ''a2'', recording_title = ''Yesterday'',
          artist_credit = Some [\<lparr>credit_name = Some ''Someone Else'',
            credit_artist = Some \<lparr>artist_id = None, artist_name = Some ''The Beatles''\<rparr>\<rparr>],
          releases = Some [\<lparr>release_id = None, title = None, date = Some ''1960'',
            status = Some ''official'', release_group = None, disambiguation = None\<rparr>]\<rparr> (trim '' The Beatles '')
   \<and> creditDisplayName \<lparr>credit_name = Some ''Someone Else'',
            credit_artist = Some \<lparr>artist_id = None, artist_name = Some ''The Beatles''\<rparr>\<rparr> = Some ''Someone Else''
   \<and> creditDisplayName \<lparr>credit_name = None,
            credit_artist = Some \<lparr>artist_id = None, artist_name = Some ''the beatles''\<rparr>\<rparr> = Some ''the beatles''
   \<and> \<not> isExactArtistMatch \<lparr>recording_id = ''a1'', recording_title = ''Yesterday'',
          artist_credit = Some [\<lparr>credit_name = Some ''The Beatles'',
            credit_artist = Some \<lparr>artist_id = None, artist_name = Some ''Someone''\<rparr>\<rparr>],
          releases = Some [\<lparr>release_id = None, title = None, date = Some ''1999'',
            status = Some ''official'', release_group = None, disambiguation = None\<rparr>,
          \<lparr>release_id = None, title = None, date = Some ''1965'',
            status = Some ''official'', release_group = None, disambiguation = None\<rparr>]\<rparr> (trim [CHR 0x09, CHR 0x20])
   \<and> (1::nat) < 2 \<and> (0::nat) < 1"
proof -
  let ?R1 = "\<lparr>recording_id = ''a1'', recording_title = ''Yesterday'',
          artist_credit = Some [\<lparr>credit_name = Some ''The Beatles'',
            credit_artist = Some \<lparr>artist_id = None, artist_name = Some ''Someone''\<rparr>\<rparr>],
          releases = Some [\<lparr>release_id = None, title = None, date = Some ''1999'',
            status = Some ''official'', release_group = None, disambiguation = None\<rparr>,
          \<lparr>release_id = None, title = None, date = Some ''1965'',
            status = Some ''official'', release_group = None, disambiguation = None\<rparr>]\<rparr>"
  let ?R2 = "\<lparr>recording_id = ''a2'', recording_title = ''Yesterday'',
          artist_credit = Some [\<lparr>credit_name = Some ''Someone Else'',
            credit_artist = Some \<lparr>artist_id = None, artist_name = Some ''The Beatles''\<rparr>\<rparr>],
          releases = Some [\<lparr>release_id = None, title = None, date = Some ''1960'',
            status = Some ''official'', release_group = None, disambiguation = None\<rparr>]\<rparr>"
  let ?R3 = "\<lparr>recording_id = ''a3'', recording_title = ''Yesterday'',
          artist_credit = Some [\<lparr>credit_name = None,
            credit_artist = Some \<lparr>artist_id = None, artist_name = Some ''the beatles''\<rparr>\<rparr>],
          releases = Some [\<lparr>release_id = None, title = None, date = Some '' 1970-03'',
            status = Some ''official'', release_group = None, disambiguation = None\<rparr>]\<rparr>"
  let ?X99 = "\<lparr>release_id = None, title = None, date = Some ''1999'',
            status = Some ''official'', release_group = None, disambiguation = None\<rparr>"
  let ?X65 = "\<lparr>release_id = None, title = None, date = Some ''1965'',
            status = Some ''official'', release_group = None, disambiguation = None\<rparr>"
  let ?C2 = "\<lparr>credit_name = Some ''Someone Else'',
            credit_artist = Some \<lparr>artist_id = None, artist_name = Some ''The Beatles''\<rparr>\<rparr>"
  let ?C3 = "\<lparr>credit_name = None,
            credit_artist = Some \<lparr>artist_id = None, artist_name = Some ''the beatles''\<rparr>\<rparr>"
  let ?A3 = "\<lparr>artist_id = None, artist_name = Some ''the beatles''\<rparr>"
  let ?q = "'' The Beatles ''"
  let ?out = "rankRecordings (\<lambda>x y. 0) [?R2, ?R3, ?R1] ?q"
  have e: "?out = [?R1, ?R3, ?R2]"
    "(0::nat) < length ?out" "(1::nat) < length ?out" "(2::nat) < length ?out"
    "isExactArtistMatch (?out ! 1) (trim ?q)"
    "\<not> isExactArtistMatch (?out ! 2) (trim ?q)"
    "isExactArtistMatch (?out ! 0) (trim ?q) = isExactArtistMatch (?out ! 1) (trim ?q)"
    "getEarliestReleaseDate (releases (?out ! 0)) < getEarliestReleaseDate (releases (?out ! 1))"
    "trim [CHR 0x09, CHR 0x20] = []"
    "getEarliestReleaseDate (Some [?X99, ?X65]) = ''1965-00-00''"
    "isExactArtistMatch ?R1 (trim ?q)" "\<not> isExactArtistMatch ?R2 (trim ?q)"
    "trim ''1965'' \<noteq> []"
    by code_simp+
  have f: "?X65 \<in> set [?X99, ?X65]" "date ?X65 = Some ''1965''"
    "credit_name ?C2 = Some ''Someone Else''"
    "credit_name ?C3 = None" "credit_artist ?C3 = Some ?A3"
    "artist_name ?A3 = Some ''the beatles''" "length ''1965'' = 4"
    by simp_all
  note t1 = rankRecordings_artist_then_date [where lc = "\<lambda>x y. 0"
      and recs = "[?R2, ?R3, ?R1]" and q = ?q and i = 1 and j = 2 and r = ?R1
      and rs = "[?X99, ?X65]" and x = ?X65 and dx = "''1965''" and cr = ?C2
      and nm = "''Someone Else''" and t = "''1965''"]
  note t2 = rankRecordings_artist_then_date [where lc = "\<lambda>x y. 0"
      and recs = "[?R2, ?R3, ?R1]" and q = ?q and i = 0 and j = 1 and r = ?R1
      and cr = ?C3 and ar = ?A3]
  note t3 = rankRecordings_artist_then_date [where lc = "\<lambda>x y. 0"
      and recs = "[?R2, ?R3, ?R1]" and q = "[CHR 0x09, CHR 0x20]" and r = ?R1]
  have c1: "mset ?out = mset [?R2, ?R3, ?R1]" using t1 by blast
  have c2: "(1::nat) < 2" using t1 e(3,4,5,6) by blast
  have c3: "(0::nat) < 1" using t2 e(2,3,7,8) by blast
  have c4: "\<not> isExactArtistMatch ?R1 (trim [CHR 0x09, CHR 0x20])" using t3 e(9) by blast
  have c5: "getEarliestReleaseDate (Some [?X99, ?X65]) \<le> normalizePartialDate (trim ''1965'')"
    using t1 f(1,2) e(13) by blast
  have c6: "normalizePartialDate ''1965'' = ''1965'' @ ''-00-00''" using t1 f(7) by blast
  have c7: "creditDisplayName ?C2 = Some ''Someone Else''" using t1 f(3) by blast
  have "creditDisplayName ?C3 = artist_name ?A3" using t2 f(4,5) by blast
  then have c8: "creditDisplayName ?C3 = Some ''the beatles''" by (simp only: f(6))
  show ?thesis using e(1,10,11,12) c1 c2 c3 c4 c5 c6 c7 c8 by blast
qed

text \<open>
  C5. A recording with no releases is scored like any other, no operation of the ranker
  failing on it: its earliest date key is \<open>9999-99-99\<close>, its best quality 999 and its best
  primacy 99. Every release scores below 999 on quality and below 99 on primacy, and so does
  every recording that has a release. The recording stays in the ranking, and there it stands
  behind every recording of equal match status that has a release with a real date.
\<close>

theorem zero_release_recording_ranks_behind:
  "(noReleases r \<longrightarrow>
       earliestDate (scoreRecording a r) = ''9999-99-99''
       \<and> bestQuality (scoreRecording a r) = 999
       \<and> bestPrimaryPenalty (scoreRecording a r) = 99)
   \<and> getReleaseQualityPenalty x < 999 \<and> getPrimaryReleaseGroupPenalty x < 99
   \<and> (releases r = Some rs \<and> x \<in> set rs \<longrightarrow>
        bestQuality (scoreRecording a r) \<le> getReleaseQualityPenalty x
        \<and> bestQuality (scoreRecording a r) < 999
        \<and> bestPrimaryPenalty (scoreRecording a r) \<le> getPrimaryReleaseGroupPenalty x
        \<and> bestPrimaryPenalty (scoreRecording a r) < 99)
   \<and> mset (rankRecordings lc recs q) = mset recs
   \<and> (i < length (rankRecordings lc recs q) \<and> j < length (rankRecordings lc recs q)
        \<and> noReleases (rankRecordings lc recs q ! i)
        \<and> hasRealDate (rankRecordings lc recs q ! j)
        \<and> isExactArtistMatch (rankRecordings lc recs q ! i) (trim q)
            = isExactArtistMatch (rankRecordings lc recs q ! j) (trim q) \<longrightarrow> j < i)"
proof -
  let ?out = "rankRecordings lc recs q"
  have s: "earliestDate (scoreRecording a r) = ''9999-99-99''
       \<and> bestQuality (scoreRecording a r) = 999
       \<and> bestPrimaryPenalty (scoreRecording a r) = 99" if "noReleases r"
    using that noReleases_sentinels [of r a] noReleases_earliest [of r]
    by (simp add: scoreRecording_fields)
  have b: "getReleaseQualityPenalty x < 999" "getPrimaryReleaseGroupPenalty x < 99"
    using penalties_bounded [of x] by simp_all
  have w: "bestQuality (scoreRecording a r) \<le> getReleaseQualityPenalty x
        \<and> bestQuality (scoreRecording a r) < 999
        \<and> bestPrimaryPenalty (scoreRecording a r) \<le> getPrimaryReleaseGroupPenalty x
        \<and> bestPrimaryPenalty (scoreRecording a r) < 99"
    if "releases r = Some rs" "x \<in> set rs"
    using scored_with_release [OF that, of a] b by simp
  have p: "j < i"
    if "i < length ?out" "j < length ?out" "noReleases (?out ! i)" "hasRealDate (?out ! j)"
      "isExactArtistMatch (?out ! i) (trim q) = isExactArtistMatch (?out ! j) (trim q)"
  proof -
    have "getEarliestReleaseDate (releases (?out ! j))
        < getEarliestReleaseDate (releases (?out ! i))"
      using hasRealDate_earliest [OF that(4)] noReleases_earliest [OF that(3)] by simp
    with that(5) have "recordingRankKey (trim q) (?out ! j) < recordingRankKey (trim q) (?out ! i)"
      by (simp add: recordingRankKey_def)
    from rank_position [OF that(2,1) this] show ?thesis .
  qed
  show ?thesis using s b w rank_mset [of lc recs q] p by blast
qed

theorem zero_release_recording_ranks_behind_witness:
  "rankRecordings (\<lambda>x y. 0) [
        \<lparr>recording_id = ''z'', recording_title = ''Yesterday'',
          artist_credit = None, releases = Some []\<rparr>,
        \<lparr>recording_id = ''d'', recording_title = ''Yesterday'',
          artist_credit = None,
          releases = Some [\<lparr>release_id = None, title = None, date = Some ''1965-08-06'',
            status = Some ''bootleg'', release_group = None, disambiguation = None\<rparr>]\<rparr>] ''The Beatles''
     = [\<lparr>recording_id = ''d'', recording_title = ''Yesterday'',
          artist_credit = None,
          releases = Some [\<lparr>release_id = None, title = None, date = Some ''1965-08-06'',
            status = Some ''bootleg'', release_group = None, disambiguation = None\<rparr>]\<rparr>,
        \<lparr>recording_id = ''z'', recording_title = ''Yesterday'',
          artist_credit = None, releases = Some []\<rparr>]
   \<and> bestQuality (scoreRecording ''The Beatles'' \<lparr>recording_id = ''z'', recording_title = ''Yesterday'',
          artist_credit = None, releases = Some []\<rparr>) = 999
   \<and> bestPrimaryPenalty (scoreRecording ''The Beatles'' \<lparr>recording_id = ''z'', recording_title = ''Yesterday'',
          artist_credit = None, releases = Some []\<rparr>) = 99
   \<and> bestQuality (scoreRecording ''The Beatles'' \<lparr>recording_id = ''d'', recording_title = ''Yesterday'',
          artist_credit = None,
          releases = Some [\<lparr>release_id = None, title = None, date = Some ''1965-08-06'',
            status = Some ''bootleg'', release_group = None, disambiguation = None\<rparr>]\<rparr>) < 999
   \<and> bestPrimaryPenalty (scoreRecording ''The Beatles'' \<lparr>recording_id = ''d'', recording_title = ''Yesterday'',
          artist_credit = None,
          releases = Some [\<lparr>release_id = None, title = None, date = Some ''1965-08-06'',
            status = Some ''bootleg'', release_group = None, disambiguation = None\<rparr>]\<rparr>) < 99
   \<and> (0::nat) < 1"
proof -
  let ?Z = "\<lparr>recording_id = ''z'', recording_title = ''Yesterday'',
          artist_credit = None, releases = Some []\<rparr>"
  let ?D = "\<lparr>recording_id = ''d'', recording_title = ''Yesterday'',
          artist_credit = None,
          releases = Some [\<lparr>release_id = None, title = None, date = Some ''1965-08-06'',
            status = Some ''bootleg'', release_group = None, disambiguation = None\<rparr>]\<rparr>"
  let ?x = "\<lparr>release_id = None, title = None, date = Some ''1965-08-06'',
            status = Some ''bootleg'', release_group = None, disambiguation = None\<rparr>"
  let ?out = "rankRecordings (\<lambda>x y. 0) [?Z, ?D] ''The Beatles''"
  have e: "?out = [?D, ?Z]"
    "noReleases ?Z" "(1::nat) < length ?out" "(0::nat) < length ?out"
    "noReleases (?out ! 1)" "hasRealDate (?out ! 0)"
    "isExactArtistMatch (?out ! 1) (trim ''The Beatles'')
       = isExactArtistMatch (?out ! 0) (trim ''The Beatles'')"
    "releases ?D = Some [?x]" "?x \<in> set [?x]"
    by code_simp+
  note t1 = zero_release_recording_ranks_behind [of ?Z "''The Beatles''" ?x "[?x]"
      "\<lambda>x y. 0" "[?Z, ?D]" "''The Beatles''" 1 0]
  note t2 = zero_release_recording_ranks_behind [of ?D "''The Beatles''" ?x "[?x]"
      "\<lambda>x y. 0" "[?Z, ?D]" "''The Beatles''" 1 0]
  have c1: "bestQuality (scoreRecording ''The Beatles'' ?Z) = 999"
    "bestPrimaryPenalty (scoreRecording ''The Beatles'' ?Z) = 99"
    using t1 e(2) by blast+
  have c2: "bestQuality (scoreRecording ''The Beatles'' ?D) < 999"
    "bestPrimaryPenalty (scoreRecording ''The Beatles'' ?D) < 99"
    using t2 e(8,9) by blast+
  have c3: "(0::nat) < 1" using t1 e(3,4,5,6,7) by blast
  show ?thesis using e(1) c1 c2 c3 by blast
qed

section \<open>First release of the recording page: properties\<close>

lemma fold_firstReleaseStep:
  "fold firstReleaseStep lst (Some b) = Some (firstLeast firstReleaseKey b lst)"
  by (induction lst arbitrary: b) (simp_all add: firstReleaseStep_def Let_def)

lemma getFirstRelease_Cons:
  assumes "(if length (filter hasDate rs) > 0 then filter hasDate rs else rs) = x # xs"
  shows "getFirstRelease (Some rs) = Some (firstLeast firstReleaseKey x xs)"
proof -
  have "rs \<noteq> []" using assms by (auto split: if_splits)
  moreover have "fold firstReleaseStep (x # xs) (Some x) = Some (firstLeast firstReleaseKey x xs)"
    by (simp add: fold_firstReleaseStep firstReleaseStep_def Let_def)
  ultimately show ?thesis using assms by (simp add: getFirstRelease_def Let_def)
qed

text \<open>
  What \<open>getFirstRelease\<close> does: it yields nothing exactly for an absent or empty list; when a
  release has a date that is not blank, it yields the first of the releases with such a date
  whose key is least among them; when every date is absent, it yields the first release.
\<close>

lemma getFirstRelease_first_least:
  "(getFirstRelease rels = None \<longleftrightarrow> rels = None \<or> rels = Some [])
   \<and> ((\<exists>x \<in> set rs. hasDate x) \<longrightarrow>
        (\<exists>w ys zs. getFirstRelease (Some rs) = Some w \<and> hasDate w
           \<and> filter hasDate rs = ys @ w # zs
           \<and> (\<forall>y \<in> set ys. firstReleaseKey w < firstReleaseKey y)
           \<and> (\<forall>z \<in> set zs. firstReleaseKey w \<le> firstReleaseKey z)))
   \<and> ((\<forall>x \<in> set rs. details_date x = None) \<longrightarrow>
        getFirstRelease (Some rs) = (case rs of [] \<Rightarrow> None | x # xs \<Rightarrow> Some x))"
proof -
  have a: "getFirstRelease rels = None \<longleftrightarrow> rels = None \<or> rels = Some []"
  proof (cases rels)
    case None
    then show ?thesis by (simp add: getFirstRelease_def)
  next
    case (Some l)
    show ?thesis
    proof (cases "l = []")
      case True
      with Some show ?thesis by (simp add: getFirstRelease_def)
    next
      case False
      then obtain x xs where
        "(if length (filter hasDate l) > 0 then filter hasDate l else l) = x # xs"
        by (cases "filter hasDate l"; cases l) auto
      from getFirstRelease_Cons [OF this] Some False show ?thesis by simp
    qed
  qed
  have b: "\<exists>w ys zs. getFirstRelease (Some rs) = Some w \<and> hasDate w
           \<and> filter hasDate rs = ys @ w # zs
           \<and> (\<forall>y \<in> set ys. firstReleaseKey w < firstReleaseKey y)
           \<and> (\<forall>z \<in> set zs. firstReleaseKey w \<le> firstReleaseKey z)"
    if "\<exists>x \<in> set rs. hasDate x"
  proof -
    from that have ne: "filter hasDate rs \<noteq> []" by (simp add: filter_empty_conv)
    then obtain x xs where l: "filter hasDate rs = x # xs" by (cases "filter hasDate rs") auto
    then have g: "getFirstRelease (Some rs) = Some (firstLeast firstReleaseKey x xs)"
      by (intro getFirstRelease_Cons) simp
    from firstLeast_split [of x xs firstReleaseKey] obtain ys zs where
      sp: "x # xs = ys @ firstLeast firstReleaseKey x xs # zs"
      and bef: "\<forall>y \<in> set ys.
        firstReleaseKey (firstLeast firstReleaseKey x xs) < firstReleaseKey y"
      and aft: "\<forall>z \<in> set zs.
        firstReleaseKey (firstLeast firstReleaseKey x xs) \<le> firstReleaseKey z"
      by blast
    have "firstLeast firstReleaseKey x xs \<in> set (filter hasDate rs)"
      unfolding l sp by simp
    then have "hasDate (firstLeast firstReleaseKey x xs)" by simp
    with g sp bef aft l show ?thesis by metis
  qed
  have c: "getFirstRelease (Some rs) = (case rs of [] \<Rightarrow> None | x # xs \<Rightarrow> Some x)"
    if h: "\<forall>x \<in> set rs. details_date x = None"
  proof (cases rs)
    case Nil
    then show ?thesis by (simp add: getFirstRelease_def)
  next
    case (Cons x xs)
    from h have "filter hasDate rs = []"
      by (simp add: filter_empty_conv hasDate_def)
    with Cons have g: "getFirstRelease (Some rs) = Some (firstLeast firstReleaseKey x xs)"
      by (intro getFirstRelease_Cons) simp
    have "\<forall>y \<in> set xs. firstReleaseKey y = firstReleaseKey x"
      using h Cons by (simp add: firstReleaseKey_def)
    then have "firstLeast firstReleaseKey x xs = x"
      by (induction xs) simp_all
    with g Cons show ?thesis by simp
  qed
  show ?thesis using a b c by blast
qed

text \<open>
  C9 says that \<open>getFirstRelease\<close> returns the first release of the list when no release has a
  date that is not blank. The loop compares a present date as it stands, blank or not, and the
  empty string sorts below the key \<open>9999-99-99\<close> of an absent date: of a release without a
  date followed by a release whose date is the empty string, the second is returned.
\<close>

theorem getFirstRelease_blank_date:
  "getFirstRelease (Some [
     \<lparr>details_id = Some ''a'', details_title = Some ''First'', details_date = None\<rparr>,
     \<lparr>details_id = Some ''b'', details_title = Some ''Second'', details_date = Some ''''\<rparr>])
   = Some \<lparr>details_id = Some ''b'', details_title = Some ''Second'',
           details_date = Some ''''\<rparr>"
  by code_simp

end
